theory Spec2Isabelle
  imports Complex_Main
begin

section \<open>Convolutional dictionary learning: the alternating-minimization driver\<close>

text \<open>
  A shallow embedding of \<^verbatim>\<open>alphacsc/learn_d_z_multi.py\<close>: the objective
  \<^verbatim>\<open>objective\<close>, the evaluator \<^verbatim>\<open>compute_X_and_objective_multi\<close> and the driver
  \<^verbatim>\<open>learn_d_z_multi\<close>.

  Floating-point numbers are idealised as \<^typ>\<open>real\<close>: rounding, infinities and NaN are
  outside the model. Python integers are \<^typ>\<open>int\<close>; array extents are \<^typ>\<open>nat\<close>.
\<close>

subsection \<open>Exceptions\<close>

datatype exn = ValueError | TypeError | Raised string

subsection \<open>numpy arrays\<close>

text \<open>
  An array is its shape together with its entries, nested by axis. Every operation reads
  the entries through the indices the shape allows, as numpy does, so an axis of extent
  zero keeps the extents of the other axes.
\<close>

record arr2 =
  dims2 :: "nat \<times> nat"
  vals2 :: "real list list"

record arr3 =
  dims3 :: "nat \<times> nat \<times> nat"
  vals3 :: "real list list list"

definition at2 :: "arr2 \<Rightarrow> nat \<Rightarrow> nat \<Rightarrow> real" where
  "at2 A i j = vals2 A ! i ! j"

definition at3 :: "arr3 \<Rightarrow> nat \<Rightarrow> nat \<Rightarrow> nat \<Rightarrow> real" where
  "at3 A i j k = vals3 A ! i ! j ! k"

definition tabulate3 :: "nat \<times> nat \<times> nat \<Rightarrow> (nat \<Rightarrow> nat \<Rightarrow> nat \<Rightarrow> real) \<Rightarrow> arr3" where
  "tabulate3 d f =
     (case d of (a, b, c) \<Rightarrow>
        \<lparr>dims3 = d,
         vals3 = map (\<lambda>i. map (\<lambda>j. map (\<lambda>k. f i j k) [0..<c]) [0..<b]) [0..<a]\<rparr>)"

text \<open>\<^verbatim>\<open>np.zeros((a, b, c))\<close>: a negative extent raises \<^verbatim>\<open>ValueError\<close>.\<close>

definition np_zeros :: "int \<Rightarrow> int \<Rightarrow> int \<Rightarrow> exn + arr3" where
  "np_zeros a b c =
     (if a < 0 \<or> b < 0 \<or> c < 0 then Inl ValueError
      else Inr (tabulate3 (nat a, nat b, nat c) (\<lambda>i j k. 0)))"

text \<open>The sum of \<open>f\<close> over the indices of a shape.\<close>

definition sum3 :: "nat \<times> nat \<times> nat \<Rightarrow> (nat \<Rightarrow> nat \<Rightarrow> nat \<Rightarrow> real) \<Rightarrow> real" where
  "sum3 d f = (case d of (a, b, c) \<Rightarrow> (\<Sum>i\<leftarrow>[0..<a]. \<Sum>j\<leftarrow>[0..<b]. \<Sum>k\<leftarrow>[0..<c]. f i j k))"

text \<open>\<^verbatim>\<open>np.sum(A)\<close> and \<^verbatim>\<open>A.sum()\<close> over all entries.\<close>

definition np_sum :: "arr3 \<Rightarrow> real" where
  "np_sum A =
     (case dims3 A of (a, b, c) \<Rightarrow>
        sum_list (map (\<lambda>i. sum_list (map (\<lambda>j. sum_list (map (\<lambda>k. at3 A i j k) [0..<c]))
          [0..<b])) [0..<a]))"

text \<open>
  Broadcasting of two extents of one axis: equal extents stay, an extent of one stretches
  to the other, anything else raises.
\<close>

definition bdim :: "nat \<Rightarrow> nat \<Rightarrow> nat option" where
  "bdim m n = (if m = n then Some m else if m = 1 then Some n else if n = 1 then Some m else None)"

definition bidx :: "nat \<Rightarrow> nat \<Rightarrow> nat" where
  "bidx m i = (if m = 1 then 0 else i)"

definition np_binop :: "(real \<Rightarrow> real \<Rightarrow> real) \<Rightarrow> arr3 \<Rightarrow> arr3 \<Rightarrow> exn + arr3" where
  "np_binop f A B =
     (case (dims3 A, dims3 B) of ((a, b, c), (a', b', c')) \<Rightarrow>
        (case (bdim a a', bdim b b', bdim c c') of
           (Some p, Some q, Some r) \<Rightarrow>
             Inr (tabulate3 (p, q, r)
               (\<lambda>i j k. f (at3 A (bidx a i) (bidx b j) (bidx c k))
                          (at3 B (bidx a' i) (bidx b' j) (bidx c' k))))
         | _ \<Rightarrow> Inl ValueError))"

text \<open>
  \<^verbatim>\<open>Z *= norm[:, None, None]\<close>: in place, so the broadcast shape must be the shape of
  \<^verbatim>\<open>Z\<close>; one factor per row of the first axis, or a single factor for all rows.
\<close>

definition imul_rows :: "arr3 \<Rightarrow> real list \<Rightarrow> exn + arr3" where
  "imul_rows Z nrm =
     (case dims3 Z of (a, b, c) \<Rightarrow>
        if length nrm = a \<or> length nrm = 1
        then Inr (tabulate3 (a, b, c) (\<lambda>i j k. at3 Z i j k * nrm ! bidx (length nrm) i))
        else Inl ValueError)"

text \<open>\<^verbatim>\<open>len(Z.nonzero()[0]) == 0\<close>: no entry of the array differs from zero.\<close>

definition all_zero :: "arr3 \<Rightarrow> bool" where
  "all_zero Z =
     (case dims3 Z of (a, b, c) \<Rightarrow>
        list_all (\<lambda>i. list_all (\<lambda>j. list_all (\<lambda>k. at3 Z i j k = 0) [0..<c]) [0..<b]) [0..<a])"

subsection \<open>Collaborators that are not part of this file\<close>

text \<open>
  Modelled from the spec: \<^verbatim>\<open>_get_D\<close>, imported from \<^verbatim>\<open>utils\<close>, whose code is not part of
  this development. An atom is a pair of a spatial pattern over the channels and a temporal pattern over its
  support, stored side by side in one row of the atom bank; the atom itself is their
  rank-one product.
\<close>

definition get_D :: "arr2 \<Rightarrow> nat \<Rightarrow> arr3" where
  "get_D uv n_chan =
     (case dims2 uv of (a, w) \<Rightarrow>
        tabulate3 (a, min n_chan w, w - min n_chan w)
          (\<lambda>k c l. at2 uv k c * at2 uv k (n_chan + l)))"

text \<open>
  Modelled from the spec: \<^verbatim>\<open>construct_X_multi\<close>, imported from \<^verbatim>\<open>utils\<close>, whose code is not
  part of this development. The reconstruction of a trial is the sum over the atoms of the
  convolution of the atom with its activation; its length is the valid length plus the
  support minus one.
  Activations and atoms that disagree on the number of atoms, and a reconstruction of
  negative length, raise.
\<close>

definition construct_X_multi :: "arr3 \<Rightarrow> arr3 \<Rightarrow> exn + arr3" where
  "construct_X_multi Z D =
     (case (dims3 Z, dims3 D) of ((a, t, v), (a', c, l)) \<Rightarrow>
        if a \<noteq> a' \<or> v + l = 0 then Inl ValueError
        else Inr (tabulate3 (t, c, v + l - 1)
          (\<lambda>i ch tm. sum_list (map (\<lambda>k. sum_list (map (\<lambda>s.
              if s \<le> tm \<and> tm - s < l then at3 Z k i s * at3 D k ch (tm - s) else 0)
            [0..<v])) [0..<a]))))"

subsection \<open>The objective\<close>

text \<open>
  \<^verbatim>\<open>objective(X, X_hat, Z_hat, reg)\<close>: half the squared residual plus the weighted sum
  of the activations. The subtraction broadcasts and can raise.
\<close>

definition objective :: "arr3 \<Rightarrow> arr3 \<Rightarrow> arr3 \<Rightarrow> real \<Rightarrow> exn + real" where
  "objective X X_hat Z_hat reg =
     (case np_binop (-) X X_hat of
        Inl e \<Rightarrow> Inl e
      | Inr residual \<Rightarrow>
          (case np_binop (*) residual residual of
             Inl e \<Rightarrow> Inl e
           | Inr sq \<Rightarrow> Inr (0.5 * np_sum sq + reg * np_sum Z_hat)))"

text \<open>
  The feasible-set projector \<^verbatim>\<open>prox_uv\<close> is imported from \<^verbatim>\<open>update_d_multi\<close>; the
  evaluator takes it as a parameter: from the atom bank, the constraint mode and the number of channels it
  returns the projected bank and the norm factor of every atom, or raises.
\<close>

type_synonym projector = "arr2 \<Rightarrow> string \<Rightarrow> nat \<Rightarrow> exn + arr2 \<times> real list"

text \<open>
  \<^verbatim>\<open>compute_X_and_objective_multi(X, Z_hat, uv_hat, reg, feasible_evaluation,
  uv_constraint)\<close> on the values of its arguments. The copies of the source are the
  identity on values; the version on a store below keeps them.
\<close>

definition compute_X_and_objective_multi ::
  "projector \<Rightarrow> arr3 \<Rightarrow> arr3 \<Rightarrow> arr2 \<Rightarrow> real \<Rightarrow> bool \<Rightarrow> string \<Rightarrow> exn + real" where
  "compute_X_and_objective_multi prox X Z_hat uv_hat reg feasible_evaluation uv_constraint =
     (let n_chan = fst (snd (dims3 X)) in
      case (if feasible_evaluation
            then (case prox uv_hat uv_constraint n_chan of
                    Inl e \<Rightarrow> Inl e
                  | Inr (uv', norm_uv) \<Rightarrow>
                      (case imul_rows Z_hat norm_uv of
                         Inl e \<Rightarrow> Inl e
                       | Inr Z' \<Rightarrow> Inr (Z', uv')))
            else Inr (Z_hat, uv_hat)) of
        Inl e \<Rightarrow> Inl e
      | Inr (Z1, uv1) \<Rightarrow>
          (case construct_X_multi Z1 (get_D uv1 n_chan) of
             Inl e \<Rightarrow> Inl e
           | Inr X_hat \<Rightarrow> objective X X_hat Z1 reg))"

subsection \<open>The driver's parameters and collaborators\<close>

text \<open>Values of keyword dictionaries.\<close>

datatype pyval = PInt int | PFloat real | PStr string

type_synonym kwargs = "string \<rightharpoonup> pyval"

text \<open>The parameters of \<^verbatim>\<open>learn_d_z_multi\<close> that are plain data.\<close>

record config =
  n_atoms :: int
  n_times_atom :: int
  reg :: real
  n_iter :: int
  random_state :: "int option"
  n_jobs :: int
  solver_z :: string
  solver_d :: string
  uv_constraint :: string
  solver_d_kwargs :: kwargs
  solver_z_kwargs :: kwargs
  eps :: real
  uv_init :: "arr2 option"
  verbose :: int
  stopping_pobj :: "real option"

text \<open>
  The random generator returned by \<^verbatim>\<open>check_random_state\<close>: its two draws, of the atom
  bank and of the warm-start vector of the dictionary stage, as functions of the extents.
\<close>

record rng =
  randn2 :: "nat \<Rightarrow> nat \<Rightarrow> arr2"
  randn1 :: "nat \<Rightarrow> real list"

text \<open>
  The collaborators of the driver, all of them defined in other modules: the projector, the
  sparse-code stage, the dictionary stage \<^verbatim>\<open>func_d\<close> (a callable the caller passes), the
  least-squares refinement, the observer callback, the random generator and the clock.
  Each is a function of the values of its arguments that returns or raises. The worker
  pool of \<^verbatim>\<open>joblib\<close>, which \<^verbatim>\<open>n_jobs\<close> sizes, belongs to the sparse-code stage; \<^verbatim>\<open>elapsed k\<close> is the duration the
  clock measures for entry \<open>k\<close> of the time trace.
\<close>

record env =
  check_random_state :: "int option \<Rightarrow> exn + rng"
  prox_uv :: projector
  update_z_multi :: "arr3 \<Rightarrow> arr2 \<Rightarrow> real \<Rightarrow> arr3 \<Rightarrow> string \<Rightarrow> kwargs \<Rightarrow> exn + arr3"
  func_d :: "arr3 \<Rightarrow> arr3 \<Rightarrow> arr2 \<Rightarrow> real list \<Rightarrow> string \<Rightarrow> string \<Rightarrow> kwargs \<Rightarrow> exn + arr2"
  support_least_square :: "arr3 \<Rightarrow> arr2 \<Rightarrow> arr3 \<Rightarrow> exn + arr3"
  callback :: "(arr3 \<Rightarrow> arr2 \<Rightarrow> arr3 \<Rightarrow> real \<Rightarrow> exn option) option"
  elapsed :: "nat \<Rightarrow> real"

subsection \<open>The driver's state\<close>

text \<open>
  What the driver does to its collaborators, in order: the calls of the two stages with
  the iteration and (for the sparse-code stage) the weight passed, the evaluations of the
  objective with the flag and the weight passed, the warning, the callback.
\<close>

datatype event =
    SparseCode nat real
  | Dictionary nat
  | Evaluate bool real
  | Warning
  | Callback nat
  | LeastSquares

text \<open>
  The local variables of \<^verbatim>\<open>learn_d_z_multi\<close> that change in the loop (\<open>times_l\<close> and
  \<open>reg_cur\<close> are the variables \<^verbatim>\<open>times\<close> and \<^verbatim>\<open>reg_\<close> of the source), and the log of
  events.
\<close>

record state =
  pobj :: "real list"
  times_l :: "real list"
  uv_hat :: arr2
  Z_hat :: arr3
  reg_cur :: real
  events :: "event list"

text \<open>A run raises, with the events up to there, or returns its state.\<close>

type_synonym 'a outcome = "(exn \<times> event list) + 'a"

datatype flow = Continue | Break

text \<open>\<^verbatim>\<open>rng.randn\<close>: a negative extent raises \<^verbatim>\<open>ValueError\<close>.\<close>

definition randn_uv :: "rng \<Rightarrow> int \<Rightarrow> int \<Rightarrow> exn + arr2" where
  "randn_uv g a w = (if a < 0 \<or> w < 0 then Inl ValueError else Inr (randn2 g (nat a) (nat w)))"

definition randn_b :: "rng \<Rightarrow> int \<Rightarrow> exn + real list" where
  "randn_b g n = (if n < 0 then Inl ValueError else Inr (randn1 g (nat n)))"

text \<open>
  The evaluation of the objective as the driver calls it, at all three places: the flag
  \<^verbatim>\<open>feasible_evaluation\<close> is not passed and so has its default \<^verbatim>\<open>True\<close>, and the weight is
  the configured \<^verbatim>\<open>reg\<close>. The value is appended to \<^verbatim>\<open>pobj\<close>.
\<close>

definition append_objective :: "env \<Rightarrow> config \<Rightarrow> arr3 \<Rightarrow> state \<Rightarrow> state outcome" where
  "append_objective E cfg X st =
     (let lg = events st @ [Evaluate True (reg cfg)] in
      case compute_X_and_objective_multi (prox_uv E) X (Z_hat st) (uv_hat st) (reg cfg) True
             (uv_constraint cfg) of
        Inl e \<Rightarrow> Inl (e, lg)
      | Inr v \<Rightarrow> Inr (st\<lparr>pobj := pobj st @ [v], events := lg\<rparr>))"

subsection \<open>Before the loop\<close>

text \<open>
  Lines 134 to 137: the initial atom bank is drawn when the caller passes none, and is a
  copy of the caller's otherwise.
\<close>

definition initial_uv :: "rng \<Rightarrow> config \<Rightarrow> nat \<Rightarrow> exn + arr2" where
  "initial_uv g cfg n_chan =
     (case uv_init cfg of
        None \<Rightarrow> randn_uv g (n_atoms cfg) (int n_chan + n_times_atom cfg)
      | Some uv0 \<Rightarrow> Inr uv0)"

text \<open>
  Lines 129 to 150: the shape of the data, the initial atom bank (given or drawn) and its
  projection, the warm-start vector, the empty traces, the all-zero activations, the first
  entry of both traces, the warm-up weight. The result is the state the loop starts in and
  the warm-start vector \<^verbatim>\<open>b_hat_0\<close>.
\<close>

definition initialise :: "env \<Rightarrow> config \<Rightarrow> arr3 \<Rightarrow> (state \<times> real list) outcome" where
  "initialise E cfg X =
     (case dims3 X of (n_trials, n_chan, n_times) \<Rightarrow>
      let n_times_valid = int n_times - n_times_atom cfg + 1 in
      case check_random_state E (random_state cfg) of
        Inl e \<Rightarrow> Inl (e, [])
      | Inr g \<Rightarrow>
      (case initial_uv g cfg n_chan of
        Inl e \<Rightarrow> Inl (e, [])
      | Inr uv0 \<Rightarrow>
      (case prox_uv E uv0 (uv_constraint cfg) n_chan of
        Inl e \<Rightarrow> Inl (e, [])
      | Inr (uv1, norm_uv) \<Rightarrow>
      (case randn_b g (n_atoms cfg * (int n_chan + n_times_atom cfg)) of
        Inl e \<Rightarrow> Inl (e, [])
      | Inr b_hat_0 \<Rightarrow>
      (case np_zeros (n_atoms cfg) (int n_trials) n_times_valid of
        Inl e \<Rightarrow> Inl (e, [])
      | Inr Z0 \<Rightarrow>
      (case append_objective E cfg X
              \<lparr>pobj = [], times_l = [], uv_hat = uv1, Z_hat = Z0, reg_cur = 0, events = []\<rparr> of
        Inl e \<Rightarrow> Inl e
      | Inr st \<Rightarrow> Inr (st\<lparr>times_l := times_l st @ [0], reg_cur := reg cfg / 100\<rparr>, b_hat_0)))))))"

subsection \<open>One outer iteration\<close>

text \<open>
  The keyword dictionary of the dictionary stage: \<^verbatim>\<open>dict(verbose=verbose, eps=1e-8)\<close>
  updated by \<^verbatim>\<open>solver_d_kwargs\<close>. A key that repeats a keyword the call passes by name
  raises \<^verbatim>\<open>TypeError\<close> at the call.
\<close>

definition d_kwargs :: "config \<Rightarrow> kwargs" where
  "d_kwargs cfg =
     [''verbose'' \<mapsto> PInt (verbose cfg), ''eps'' \<mapsto> PFloat (1 / 10 ^ 8)] ++ solver_d_kwargs cfg"

definition call_func_d :: "env \<Rightarrow> config \<Rightarrow> arr3 \<Rightarrow> arr3 \<Rightarrow> arr2 \<Rightarrow> real list \<Rightarrow> exn + arr2" where
  "call_func_d E cfg X Z uv b_hat_0 =
     (let kw = d_kwargs cfg in
      if kw ''uv_hat0'' \<noteq> None \<or> kw ''b_hat_0'' \<noteq> None \<or> kw ''solver_d'' \<noteq> None
         \<or> kw ''uv_constraint'' \<noteq> None
      then Inl TypeError
      else func_d E X Z uv b_hat_0 (solver_d cfg) (uv_constraint cfg) kw)"

text \<open>
  The two stopping rules at the end of an iteration, lines 204 to 208, on the objective
  trace: \<^verbatim>\<open>pobj[-2] - pobj[-1] < eps\<close>, then
  \<^verbatim>\<open>stopping_pobj is not None and pobj[-1] < stopping_pobj\<close>. The trace has at least three
  entries there, so neither index raises.
\<close>

definition stopping_rules :: "config \<Rightarrow> real list \<Rightarrow> flow" where
  "stopping_rules cfg p =
     (if p ! (length p - 2) - p ! (length p - 1) < eps cfg then Break
      else (case stopping_pobj cfg of
              None \<Rightarrow> Continue
            | Some target \<Rightarrow> if p ! (length p - 1) < target then Break else Continue))"

text \<open>
  Lines 201 and 202: \<^verbatim>\<open>if callable(callback): callback(X, uv_hat, Z_hat, reg)\<close>. What the
  callback returns is dropped; what it raises propagates.
\<close>

definition run_callback :: "env \<Rightarrow> config \<Rightarrow> arr3 \<Rightarrow> nat \<Rightarrow> state \<Rightarrow> state outcome" where
  "run_callback E cfg X ii st =
     (case callback E of
        None \<Rightarrow> Inr st
      | Some cb \<Rightarrow>
          (let lg = events st @ [Callback ii] in
           case cb X (uv_hat st) (Z_hat st) (reg cfg) of
             Some e \<Rightarrow> Inl (e, lg)
           | None \<Rightarrow> Inr (st\<lparr>events := lg\<rparr>)))"

text \<open>
  The body of the loop, lines 153 to 208, for iteration \<open>ii\<close>. The printing under
  \<^verbatim>\<open>verbose\<close> changes no variable and is left out.
\<close>

definition iteration ::
  "env \<Rightarrow> config \<Rightarrow> arr3 \<Rightarrow> real list \<Rightarrow> nat \<Rightarrow> state \<Rightarrow> (flow \<times> state) outcome" where
  "iteration E cfg X b_hat_0 ii st0 =
     (let st1 = (if ii = 1 then st0\<lparr>reg_cur := reg cfg\<rparr> else st0);
          st2 = st1\<lparr>events := events st1 @ [SparseCode ii (reg_cur st1)]\<rparr> in
      case update_z_multi E X (uv_hat st2) (reg_cur st2) (Z_hat st2) (solver_z cfg)
             (solver_z_kwargs cfg) of
        Inl e \<Rightarrow> Inl (e, events st2)
      | Inr Z \<Rightarrow>
      let st3 = st2\<lparr>Z_hat := Z, times_l := times_l st2 @ [elapsed E (length (times_l st2))]\<rparr> in
      if all_zero (Z_hat st3)
      then Inr (Break, st3\<lparr>events := events st3 @ [Warning]\<rparr>)
      else
      (case append_objective E cfg X st3 of
        Inl e \<Rightarrow> Inl e
      | Inr st4 \<Rightarrow>
      let st5 = st4\<lparr>events := events st4 @ [Dictionary ii]\<rparr> in
      (case call_func_d E cfg X (Z_hat st5) (uv_hat st5) b_hat_0 of
        Inl e \<Rightarrow> Inl (e, events st5)
      | Inr uv \<Rightarrow>
      let st6 = st5\<lparr>uv_hat := uv, times_l := times_l st5 @ [elapsed E (length (times_l st5))]\<rparr> in
      (case append_objective E cfg X st6 of
        Inl e \<Rightarrow> Inl e
      | Inr st7 \<Rightarrow>
      (case run_callback E cfg X ii st7 of
        Inl e \<Rightarrow> Inl e
      | Inr st9 \<Rightarrow> Inr (stopping_rules cfg (pobj st9), st9))))))"

subsection \<open>The loop and the driver\<close>

text \<open>\<^verbatim>\<open>for ii in range(n_iter)\<close> with its \<^verbatim>\<open>break\<close>, over the list of the indices.\<close>

fun outer_loop ::
  "env \<Rightarrow> config \<Rightarrow> arr3 \<Rightarrow> real list \<Rightarrow> nat list \<Rightarrow> state \<Rightarrow> state outcome" where
  "outer_loop E cfg X b_hat_0 [] st = Inr st"
| "outer_loop E cfg X b_hat_0 (ii # iis) st =
     (case iteration E cfg X b_hat_0 ii st of
        Inl e \<Rightarrow> Inl e
      | Inr (Break, st') \<Rightarrow> Inr st'
      | Inr (Continue, st') \<Rightarrow> outer_loop E cfg X b_hat_0 iis st')"

text \<open>
  The state in which iteration \<open>k\<close> of the loop starts, when the loop gets that far: every
  earlier iteration has returned without \<^verbatim>\<open>break\<close>.
\<close>

fun loop_state :: "env \<Rightarrow> config \<Rightarrow> arr3 \<Rightarrow> real list \<Rightarrow> state \<Rightarrow> nat \<Rightarrow> state option" where
  "loop_state E cfg X b_hat_0 st0 0 = Some st0"
| "loop_state E cfg X b_hat_0 st0 (Suc k) =
     (case loop_state E cfg X b_hat_0 st0 k of
        None \<Rightarrow> None
      | Some st \<Rightarrow>
          (case iteration E cfg X b_hat_0 k st of
             Inr (Continue, st') \<Rightarrow> Some st'
           | _ \<Rightarrow> None))"

text \<open>Line 210: the least-squares refinement of the activations, on every exit of the loop.\<close>

definition finish :: "env \<Rightarrow> arr3 \<Rightarrow> state \<Rightarrow> state outcome" where
  "finish E X st =
     (let lg = events st @ [LeastSquares] in
      case support_least_square E X (uv_hat st) (Z_hat st) of
        Inl e \<Rightarrow> Inl (e, lg)
      | Inr Z \<Rightarrow> Inr (st\<lparr>Z_hat := Z, events := lg\<rparr>))"

text \<open>
  \<^verbatim>\<open>learn_d_z_multi\<close>. The source returns \<^verbatim>\<open>pobj, times, uv_hat, Z_hat\<close>, the fields of
  the final state. \<^verbatim>\<open>range(n_iter)\<close> is empty for a negative \<^verbatim>\<open>n_iter\<close>.
\<close>

definition learn_d_z_multi :: "env \<Rightarrow> config \<Rightarrow> arr3 \<Rightarrow> state outcome" where
  "learn_d_z_multi E cfg X =
     (case initialise E cfg X of
        Inl e \<Rightarrow> Inl e
      | Inr (st0, b_hat_0) \<Rightarrow>
          (case outer_loop E cfg X b_hat_0 [0..<nat (n_iter cfg)] st0 of
             Inl e \<Rightarrow> Inl e
           | Inr st \<Rightarrow> finish E X st))"

subsection \<open>What a run did\<close>

text \<open>The events of a run, whether it raised or returned.\<close>

definition events_of :: "state outcome \<Rightarrow> event list" where
  "events_of r = (case r of Inl (e, lg) \<Rightarrow> lg | Inr st \<Rightarrow> events st)"

fun is_sparse_code :: "event \<Rightarrow> bool" where
  "is_sparse_code (SparseCode ii r) = True"
| "is_sparse_code ev = False"

fun is_stage :: "event \<Rightarrow> bool" where
  "is_stage (SparseCode ii r) = True"
| "is_stage (Dictionary ii) = True"
| "is_stage ev = False"

text \<open>
  The warm-up schedule in the words of the spec: the configured weight divided by 100
  during iteration 0 only, the full configured weight from iteration 1 onward.
\<close>

definition warmup_weight :: "config \<Rightarrow> nat \<Rightarrow> real" where
  "warmup_weight cfg ii = (if ii = 0 then reg cfg / 100 else reg cfg)"

text \<open>Half the sum of the squares of the entries of an array, in the words of the spec.\<close>

definition half_sum_squares :: "arr3 \<Rightarrow> real" where
  "half_sum_squares X =
     (case dims3 X of (a, b, c) \<Rightarrow>
        (\<Sum>i\<leftarrow>[0..<a]. \<Sum>j\<leftarrow>[0..<b]. \<Sum>k\<leftarrow>[0..<c]. (at3 X i j k)\<^sup>2) / 2)"

text \<open>
  The shapes the docstrings promise: the projector returns a bank of the shape it was
  given, the generator draws the shape it was asked for, and an initial atom bank passed by
  the caller has \<^verbatim>\<open>n_atoms\<close> rows and \<^verbatim>\<open>n_channels + n_times_atom\<close> columns.
\<close>

definition keeps_shape :: "projector \<Rightarrow> bool" where
  "keeps_shape prox = (\<forall>uv c n uv' nrm. prox uv c n = Inr (uv', nrm) \<longrightarrow> dims2 uv' = dims2 uv)"

definition draws_shape :: "env \<Rightarrow> bool" where
  "draws_shape E =
     (\<forall>seed g a w. check_random_state E seed = Inr g \<longrightarrow> dims2 (randn2 g a w) = (a, w))"

definition uv_init_shape :: "config \<Rightarrow> arr3 \<Rightarrow> bool" where
  "uv_init_shape cfg X =
     (0 \<le> n_times_atom cfg \<and>
      (case uv_init cfg of
         None \<Rightarrow> True
       | Some uv0 \<Rightarrow>
           dims2 uv0 = (nat (n_atoms cfg), fst (snd (dims3 X)) + nat (n_times_atom cfg))))"

subsection \<open>The evaluator on a store\<close>

text \<open>
  Arrays are objects: a variable holds a reference, \<^verbatim>\<open>copy\<close> allocates, and \<^verbatim>\<open>*=\<close> writes
  through the reference. The store holds the arrays of each rank; a reference is an index,
  and allocation appends.
\<close>

record store =
  arrs3 :: "arr3 list"
  arrs2 :: "arr2 list"

definition copy3 :: "nat \<Rightarrow> store \<Rightarrow> nat \<times> store" where
  "copy3 r h = (length (arrs3 h), h\<lparr>arrs3 := arrs3 h @ [arrs3 h ! r]\<rparr>)"

definition copy2 :: "nat \<Rightarrow> store \<Rightarrow> nat \<times> store" where
  "copy2 r h = (length (arrs2 h), h\<lparr>arrs2 := arrs2 h @ [arrs2 h ! r]\<rparr>)"

text \<open>
  The projector on the store. Whether \<^verbatim>\<open>prox_uv\<close> overwrites the array it is handed and
  returns the same reference, or returns a new array, is not visible from this file: the
  flag \<open>in_place\<close> selects one or the other.
\<close>

definition prox_uv_store ::
  "projector \<Rightarrow> bool \<Rightarrow> nat \<Rightarrow> string \<Rightarrow> nat \<Rightarrow> store \<Rightarrow> (exn + nat \<times> real list) \<times> store" where
  "prox_uv_store prox in_place r c n_chan h =
     (case prox (arrs2 h ! r) c n_chan of
        Inl e \<Rightarrow> (Inl e, h)
      | Inr (uv', norm_uv) \<Rightarrow>
          if in_place then (Inr (r, norm_uv), h\<lparr>arrs2 := (arrs2 h)[r := uv']\<rparr>)
          else (Inr (length (arrs2 h), norm_uv), h\<lparr>arrs2 := arrs2 h @ [uv']\<rparr>))"

text \<open>
  Lines 62 to 65 on the store: the reconstruction and the objective read the arrays the
  local variables refer to; their own results are temporaries.
\<close>

definition reconstruct_and_score ::
  "nat \<Rightarrow> nat \<Rightarrow> nat \<Rightarrow> nat \<Rightarrow> real \<Rightarrow> store \<Rightarrow> (exn + real) \<times> store" where
  "reconstruct_and_score n_chan X_ref Z_ref uv_ref w h =
     (case construct_X_multi (arrs3 h ! Z_ref) (get_D (arrs2 h ! uv_ref) n_chan) of
        Inl e \<Rightarrow> (Inl e, h)
      | Inr X_hat \<Rightarrow> (objective (arrs3 h ! X_ref) X_hat (arrs3 h ! Z_ref) w, h))"

text \<open>
  \<^verbatim>\<open>compute_X_and_objective_multi\<close> on references \<open>X_ref\<close>, \<open>Z_ref\<close> and \<open>uv_ref\<close> into
  the store, with weight \<open>w\<close>. Lines 54 and 55 rebind the local names to copies; line 57 rebinds \<^verbatim>\<open>uv_hat\<close> to what the
  projector returns; line 60 writes through the local \<^verbatim>\<open>Z_hat\<close>.
\<close>

definition compute_X_and_objective_multi_store ::
  "projector \<Rightarrow> bool \<Rightarrow> nat \<Rightarrow> nat \<Rightarrow> nat \<Rightarrow> real \<Rightarrow> bool \<Rightarrow> string \<Rightarrow> store
     \<Rightarrow> (exn + real) \<times> store" where
  "compute_X_and_objective_multi_store prox in_place X_ref Z_ref uv_ref w feasible_evaluation
       constraint h0 =
     (let n_chan = fst (snd (dims3 (arrs3 h0 ! X_ref))) in
      if feasible_evaluation then
        (case copy3 Z_ref h0 of (Z_loc, h1) \<Rightarrow>
         case copy2 uv_ref h1 of (uv_loc, h2) \<Rightarrow>
         case prox_uv_store prox in_place uv_loc constraint n_chan h2 of
           (Inl e, h3) \<Rightarrow> (Inl e, h3)
         | (Inr (uv_loc', norm_uv), h3) \<Rightarrow>
             (case imul_rows (arrs3 h3 ! Z_loc) norm_uv of
                Inl e \<Rightarrow> (Inl e, h3)
              | Inr Z' \<Rightarrow>
                  reconstruct_and_score n_chan X_ref Z_loc uv_loc' w
                    (h3\<lparr>arrs3 := (arrs3 h3)[Z_loc := Z']\<rparr>)))
      else reconstruct_and_score n_chan X_ref Z_ref uv_ref w h0)"

subsection \<open>A projector for the examples\<close>

definition tabulate2 :: "nat \<times> nat \<Rightarrow> (nat \<Rightarrow> nat \<Rightarrow> real) \<Rightarrow> arr2" where
  "tabulate2 d f =
     (case d of (a, w) \<Rightarrow> \<lparr>dims2 = d, vals2 = map (\<lambda>i. map (\<lambda>j. f i j) [0..<w]) [0..<a]\<rparr>)"

definition norm_l2 :: "real list \<Rightarrow> real" where
  "norm_l2 xs = sqrt (sum_list (map (\<lambda>x. x\<^sup>2) xs))"

definition norm_inf :: "real list \<Rightarrow> real" where
  "norm_inf xs = fold max (map abs xs) 0"

text \<open>
  Modelled from the spec: \<^verbatim>\<open>prox_uv\<close>, imported from \<^verbatim>\<open>update_d_multi\<close>, whose code is not
  part of this development. In mode \<^verbatim>\<open>joint\<close> the whole row of an atom is divided by the
  larger of one and its Euclidean norm; in mode \<^verbatim>\<open>separate\<close> the spatial and the temporal
  part each by the larger of one and their own norm; in mode \<^verbatim>\<open>box\<close> the whole row by the
  larger of one and its largest absolute entry. The factor returned for an atom is the one
  its temporal part was divided by. Any other mode raises. The general theorems below hold
  for every projector; this one is the projector of the examples, whose atoms all have a
  spatial part of norm one.
\<close>

definition prox_uv_spec :: projector where
  "prox_uv_spec uv c n_chan =
     (case dims2 uv of (a, w) \<Rightarrow>
      let part = (\<lambda>k lo hi. map (at2 uv k) [lo..<hi]) in
      if c = ''joint'' then
        (let nrm = map (\<lambda>k. max 1 (norm_l2 (part k 0 w))) [0..<a]
         in Inr (tabulate2 (a, w) (\<lambda>k j. at2 uv k j / nrm ! k), nrm))
      else if c = ''separate'' then
        (let nu = map (\<lambda>k. max 1 (norm_l2 (part k 0 (min n_chan w)))) [0..<a];
             nv = map (\<lambda>k. max 1 (norm_l2 (part k (min n_chan w) w))) [0..<a]
         in Inr (tabulate2 (a, w)
                  (\<lambda>k j. if j < n_chan then at2 uv k j / nu ! k else at2 uv k j / nv ! k), nv))
      else if c = ''box'' then
        (let nrm = map (\<lambda>k. max 1 (norm_inf (part k 0 w))) [0..<a]
         in Inr (tabulate2 (a, w) (\<lambda>k j. at2 uv k j / nrm ! k), nrm))
      else Inl ValueError)"

subsection \<open>An environment and inputs for the examples\<close>

text \<open>
  One trial of one channel and two samples; one atom of support one. The stages of the
  example environment return fixed arrays: the sparse-code stage the activations \<open>Z\<close>, the
  dictionary stage the atom bank \<open>uv\<close>; the refinement returns the activations it is given;
  the clock measures one second each time.
\<close>

definition ex_X :: arr3 where
  "ex_X = \<lparr>dims3 = (1, 1, 2), vals3 = [[[2, 0]]]\<rparr>"

definition ex_uv0 :: arr2 where
  "ex_uv0 = \<lparr>dims2 = (1, 2), vals2 = [[1, 1 / 2]]\<rparr>"

definition ex_rng :: rng where
  "ex_rng = \<lparr>randn2 = (\<lambda>a w. tabulate2 (a, w) (\<lambda>i j. 1 / 2)), randn1 = (\<lambda>n. replicate n 0)\<rparr>"

definition ex_env :: "arr3 \<Rightarrow> arr2 \<Rightarrow> env" where
  "ex_env Z uv =
     \<lparr>check_random_state = (\<lambda>seed. Inr ex_rng),
      prox_uv = prox_uv_spec,
      update_z_multi = (\<lambda>X uv0 r z0 solver kw. Inr Z),
      func_d = (\<lambda>X Z0 uv0 b solver c kw. Inr uv),
      support_least_square = (\<lambda>X uv0 Z0. Inr Z0),
      callback = None,
      elapsed = (\<lambda>k. 1)\<rparr>"

definition ex_cfg :: config where
  "ex_cfg =
     \<lparr>n_atoms = 1, n_times_atom = 1, reg = 1 / 4, n_iter = 2, random_state = None, n_jobs = 1,
      solver_z = ''l_bfgs'', solver_d = ''alternate'', uv_constraint = ''separate'',
      solver_d_kwargs = Map.empty, solver_z_kwargs = Map.empty, eps = 1 / 10 ^ 10,
      uv_init = Some ex_uv0, verbose = 0,
      stopping_pobj = None\<rparr>"

definition ex_Z :: arr3 where
  "ex_Z = \<lparr>dims3 = (1, 1, 2), vals3 = [[[2, 0]]]\<rparr>"

definition ex_Z0 :: arr3 where
  "ex_Z0 = \<lparr>dims3 = (1, 1, 2), vals3 = [[[0, 0]]]\<rparr>"

definition ex_uv :: arr2 where
  "ex_uv = \<lparr>dims2 = (1, 2), vals2 = [[1, 1]]\<rparr>"

definition ex_uv_big :: arr2 where
  "ex_uv_big = \<lparr>dims2 = (1, 2), vals2 = [[1, 2]]\<rparr>"

text \<open>The state of the example after the lines before the loop.\<close>

definition ex_st0 :: state where
  "ex_st0 =
     \<lparr>pobj = [2], times_l = [0], uv_hat = ex_uv0, Z_hat = ex_Z0, reg_cur = 1 / 400,
      events = [Evaluate True (1 / 4)]\<rparr>"

text \<open>The state after iteration 0 of the example, when the dictionary stage returns \<open>uv\<close>
  and the two objectives of the iteration are \<open>a\<close> and \<open>c\<close>.\<close>

definition ex_st1 :: "arr2 \<Rightarrow> real \<Rightarrow> real \<Rightarrow> state" where
  "ex_st1 uv a c =
     \<lparr>pobj = [2, a, c], times_l = [0, 1, 1], uv_hat = uv, Z_hat = ex_Z, reg_cur = 1 / 400,
      events = [Evaluate True (1 / 4), SparseCode 0 (1 / 400), Evaluate True (1 / 4),
                Dictionary 0, Evaluate True (1 / 4)]\<rparr>"

definition ex_store :: store where
  "ex_store = \<lparr>arrs3 = [ex_X, ex_Z], arrs2 = [ex_uv_big]\<rparr>"

definition ex_cfg_target :: config where
  "ex_cfg_target = ex_cfg\<lparr>stopping_pobj := Some (1 / 2)\<rparr>"

definition ex_cfg_zero :: config where
  "ex_cfg_zero = ex_cfg\<lparr>n_iter := 0\<rparr>"

definition ex_cfg_bad :: config where
  "ex_cfg_bad = ex_cfg\<lparr>reg := - 1, solver_z := ''no_such_solver'', n_iter := 0\<rparr>"

definition ex_cfg_mode :: config where
  "ex_cfg_mode = ex_cfg\<lparr>uv_constraint := ''no_such_mode''\<rparr>"

text \<open>A sparse-code stage that raises at every weight but \<open>1 / 4\<close>.\<close>

definition ex_stage_quarter :: "arr3 \<Rightarrow> arr2 \<Rightarrow> real \<Rightarrow> arr3 \<Rightarrow> string \<Rightarrow> kwargs \<Rightarrow> exn + arr3" where
  "ex_stage_quarter X uv r z0 solver kw = (if r = 1 / 4 then Inr ex_Z else Inl ValueError)"

text \<open>
  Data of one sample per trial, the all-zero activations that go with it, and an initial
  atom bank of three columns where \<^verbatim>\<open>n_channels + n_times_atom\<close> is two.
\<close>

definition ex_X1 :: arr3 where
  "ex_X1 = \<lparr>dims3 = (1, 1, 1), vals3 = [[[2]]]\<rparr>"

definition ex_Z0_one :: arr3 where
  "ex_Z0_one = \<lparr>dims3 = (1, 1, 1), vals3 = [[[0]]]\<rparr>"

definition ex_uv_wide :: arr2 where
  "ex_uv_wide = \<lparr>dims2 = (1, 3), vals2 = [[1, 0, 0]]\<rparr>"

definition ex_cfg_wide :: config where
  "ex_cfg_wide = ex_cfg\<lparr>uv_init := Some ex_uv_wide, n_iter := 0\<rparr>"

text \<open>
  Runs that fail while they are prepared: a generator that rejects every seed, two stages
  that raise whenever they are called, and configurations with a negative number of atoms
  (and a drawn or a given initial bank), with atoms longer than the signals, and with an
  initial bank one column too wide for the example data.
\<close>

definition ex_env_seed :: env where
  "ex_env_seed = (ex_env ex_Z ex_uv)\<lparr>check_random_state := (\<lambda>seed. Inl ValueError)\<rparr>"

definition ex_z_raises :: "arr3 \<Rightarrow> arr2 \<Rightarrow> real \<Rightarrow> arr3 \<Rightarrow> string \<Rightarrow> kwargs \<Rightarrow> exn + arr3" where
  "ex_z_raises X uv r z0 solver kw = Inl (Raised ''update_z_multi was called'')"

definition ex_d_raises :: "arr3 \<Rightarrow> arr3 \<Rightarrow> arr2 \<Rightarrow> real list \<Rightarrow> string \<Rightarrow> string \<Rightarrow> kwargs \<Rightarrow> exn + arr2" where
  "ex_d_raises X Z uv b solver c kw = Inl (Raised ''func_d was called'')"

definition ex_cfg_draw :: config where
  "ex_cfg_draw = ex_cfg\<lparr>uv_init := None, n_atoms := - 1\<rparr>"

definition ex_cfg_neg :: config where
  "ex_cfg_neg = ex_cfg\<lparr>n_atoms := - 1\<rparr>"

definition ex_cfg_long :: config where
  "ex_cfg_long = ex_cfg\<lparr>n_times_atom := 4\<rparr>"

definition ex_cfg_wide_bank :: config where
  "ex_cfg_wide_bank = ex_cfg\<lparr>uv_init := Some ex_uv_wide\<rparr>"
section \<open>Facts about arrays and the evaluator\<close>

lemma sum_list_upt_cong:
  "(\<And>i. i < n \<Longrightarrow> f i = g i) \<Longrightarrow> (\<Sum>i\<leftarrow>[0..<n]. f i) = (\<Sum>i\<leftarrow>[0..<n]. (g i :: real))"
  by (rule arg_cong[where f = sum_list]) simp

lemma sum3_cong:
  assumes "\<And>i j k. i < a \<Longrightarrow> j < b \<Longrightarrow> k < c \<Longrightarrow> f i j k = g i j k"
  shows "sum3 (a, b, c) f = sum3 (a, b, c) g"
  unfolding sum3_def prod.case
  by (intro sum_list_upt_cong assms)

lemma sum3_zero: "sum3 d (\<lambda>i j k. 0) = 0"
  by (cases d) (simp add: sum3_def)

lemma dims3_tabulate3: "dims3 (tabulate3 d f) = d"
  by (cases d) (simp add: tabulate3_def)

lemma at3_tabulate3:
  "i < a \<Longrightarrow> j < b \<Longrightarrow> k < c \<Longrightarrow> at3 (tabulate3 (a, b, c) f) i j k = f i j k"
  by (simp add: at3_def tabulate3_def)

lemma np_sum_sum3: "np_sum A = sum3 (dims3 A) (at3 A)"
  by (simp add: np_sum_def sum3_def)

lemma np_sum_tabulate3: "np_sum (tabulate3 (a, b, c) f) = sum3 (a, b, c) f"
  unfolding np_sum_sum3 dims3_tabulate3
  by (rule sum3_cong) (rule at3_tabulate3)

lemma half_sum_squares_sum3:
  "half_sum_squares X = sum3 (dims3 X) (\<lambda>i j k. (at3 X i j k)\<^sup>2) / 2"
  by (cases "dims3 X") (simp add: half_sum_squares_def sum3_def)

lemma bidx_in_range: "i < m \<Longrightarrow> bidx m i = i"
  by (simp add: bidx_def)

lemma bdim_same: "bdim m m = Some m"
  by (simp add: bdim_def)

text \<open>The objective against a reconstruction that is zero, under activations that are zero.\<close>

lemma objective_zero:
  assumes X: "dims3 X = (t, c, n)"
    and Xh: "X_hat = tabulate3 (t, c, n) g" "\<And>i j k. i < t \<Longrightarrow> j < c \<Longrightarrow> k < n \<Longrightarrow> g i j k = 0"
    and Z: "np_sum Z = 0"
  shows "objective X X_hat Z w = Inr (half_sum_squares X)"
proof -
  let ?res = "tabulate3 (t, c, n) (\<lambda>i j k. at3 X (bidx t i) (bidx c j) (bidx n k)
                 - at3 X_hat (bidx t i) (bidx c j) (bidx n k))"
  have r: "np_binop (-) X X_hat = Inr ?res"
    by (simp add: np_binop_def X Xh(1) dims3_tabulate3 bdim_same)
  let ?sq = "tabulate3 (t, c, n) (\<lambda>i j k. at3 ?res (bidx t i) (bidx c j) (bidx n k)
                 * at3 ?res (bidx t i) (bidx c j) (bidx n k))"
  have s: "np_binop (*) ?res ?res = Inr ?sq"
    by (simp add: np_binop_def dims3_tabulate3 bdim_same)
  have "np_sum ?sq = sum3 (t, c, n) (\<lambda>i j k. (at3 X i j k)\<^sup>2)"
    unfolding np_sum_tabulate3
  proof (rule sum3_cong)
    fix i j k assume b: "i < t" "j < c" "k < n"
    then show "at3 ?res (bidx t i) (bidx c j) (bidx n k) * at3 ?res (bidx t i) (bidx c j) (bidx n k)
       = (at3 X i j k)\<^sup>2"
      by (simp add: bidx_in_range at3_tabulate3 Xh power2_eq_square)
  qed
  then show ?thesis
    by (simp add: objective_def r s Z half_sum_squares_sum3 X)
qed

lemma imul_rows_zeros:
  assumes "imul_rows (tabulate3 (a, t, v) (\<lambda>i j k. 0)) nrm = Inr Z'"
  shows "Z' = tabulate3 (a, t, v) (\<lambda>i j k. at3 (tabulate3 (a, t, v) (\<lambda>i j k. 0)) i j k
              * nrm ! bidx (length nrm) i)"
    and "np_sum Z' = 0"
    and "\<And>i j k. i < a \<Longrightarrow> j < t \<Longrightarrow> k < v \<Longrightarrow> at3 Z' i j k = 0"
proof -
  show Z': "Z' = tabulate3 (a, t, v) (\<lambda>i j k. at3 (tabulate3 (a, t, v) (\<lambda>i j k. 0)) i j k
              * nrm ! bidx (length nrm) i)"
    using assms by (simp add: imul_rows_def dims3_tabulate3 split: if_splits)
  show z: "\<And>i j k. i < a \<Longrightarrow> j < t \<Longrightarrow> k < v \<Longrightarrow> at3 Z' i j k = 0"
    unfolding Z' by (simp add: at3_tabulate3)
  have "np_sum Z' = sum3 (a, t, v) (\<lambda>i j k. 0)"
    unfolding Z' np_sum_tabulate3 by (rule sum3_cong) (simp add: at3_tabulate3)
  then show "np_sum Z' = 0" by (simp add: sum3_zero)
qed

lemma dims3_get_D:
  "dims2 uv = (a, c + l) \<Longrightarrow> dims3 (get_D uv c) = (a, c, l)"
  by (simp add: get_D_def dims3_tabulate3)

lemma evaluator_zero_activations:
  assumes ev: "compute_X_and_objective_multi prox X (tabulate3 (a, t, v) (\<lambda>i j k. 0)) uv w True c
                 = Inr r"
    and X: "dims3 X = (t, ch, n)"
    and keeps: "keeps_shape prox"
    and uv: "dims2 uv = (a', ch + l)"
    and len: "v + l = Suc n"
  shows "r = half_sum_squares X"
proof -
  let ?Z = "tabulate3 (a, t, v) (\<lambda>i j k. 0)"
  have nch: "fst (snd (dims3 X)) = ch" by (simp add: X)
  obtain uv' nrm where p: "prox uv c ch = Inr (uv', nrm)"
    using ev by (cases "prox uv c ch") (auto simp: compute_X_and_objective_multi_def nch Let_def)
  obtain Z' where m: "imul_rows ?Z nrm = Inr Z'"
    using ev p by (cases "imul_rows ?Z nrm") (auto simp: compute_X_and_objective_multi_def nch Let_def)
  note Z' = imul_rows_zeros[OF m]
  have duv': "dims2 uv' = (a', ch + l)"
    using keeps p uv unfolding keeps_shape_def by metis
  have dD: "dims3 (get_D uv' ch) = (a', ch, l)" by (rule dims3_get_D[OF duv'])
  have dZ': "dims3 Z' = (a, t, v)" unfolding Z'(1) by (rule dims3_tabulate3)
  obtain X_hat where c: "construct_X_multi Z' (get_D uv' ch) = Inr X_hat"
    using ev p m
    by (cases "construct_X_multi Z' (get_D uv' ch)")
       (auto simp: compute_X_and_objective_multi_def nch Let_def)
  let ?g = "\<lambda>i ch' tm. \<Sum>k\<leftarrow>[0..<a]. \<Sum>s\<leftarrow>[0..<v].
              if s \<le> tm \<and> tm - s < l then at3 Z' k i s * at3 (get_D uv' ch) k ch' (tm - s) else 0"
  have Xh: "X_hat = tabulate3 (t, ch, n) ?g"
    using c len by (auto simp: construct_X_multi_def dZ' dD split: if_splits)
  have g0: "?g i j k = 0" if "i < t" for i j k
  proof -
    have "?g i j k = (\<Sum>k\<leftarrow>[0..<a]. \<Sum>s\<leftarrow>[0..<v]. 0)"
      by (intro sum_list_upt_cong) (simp add: Z'(3) that)
    then show ?thesis by simp
  qed
  have "objective X X_hat Z' w = Inr (half_sum_squares X)"
    by (rule objective_zero[OF X Xh _ Z'(2)]) (rule g0)
  then show ?thesis
    using ev p m c by (simp add: compute_X_and_objective_multi_def nch Let_def)
qed

lemma np_zeros_Inr:
  "np_zeros a t v = Inr Z \<Longrightarrow> 0 \<le> a \<and> 0 \<le> t \<and> 0 \<le> v \<and> Z = tabulate3 (nat a, nat t, nat v) (\<lambda>i j k. 0)"
  by (auto simp: np_zeros_def split: if_splits)

subsection \<open>The evaluator on the store\<close>

lemma reconstruct_and_score_store:
  "snd (reconstruct_and_score n X_ref Z_ref uv_ref w h) = h"
  by (simp add: reconstruct_and_score_def split: sum.splits)

lemma reconstruct_and_score_value:
  "fst (reconstruct_and_score n X_ref Z_ref uv_ref w h) =
     (case construct_X_multi (arrs3 h ! Z_ref) (get_D (arrs2 h ! uv_ref) n) of
        Inl e \<Rightarrow> Inl e
      | Inr X_hat \<Rightarrow> objective (arrs3 h ! X_ref) X_hat (arrs3 h ! Z_ref) w)"
  by (simp add: reconstruct_and_score_def split: sum.splits)

text \<open>The store after the evaluator begins with the store before it.\<close>

lemma evaluator_store_prefix:
  "take (length (arrs3 h)) (arrs3 (snd (compute_X_and_objective_multi_store prox in_place
       X_ref Z_ref uv_ref w feas c h))) = arrs3 h
   \<and> take (length (arrs2 h)) (arrs2 (snd (compute_X_and_objective_multi_store prox in_place
       X_ref Z_ref uv_ref w feas c h))) = arrs2 h"
  by (auto simp: compute_X_and_objective_multi_store_def copy3_def copy2_def prox_uv_store_def
      reconstruct_and_score_store Let_def split: sum.splits prod.splits)

text \<open>The evaluator on the store computes what the evaluator on values computes.\<close>

lemma evaluator_store_value:
  assumes "X_ref < length (arrs3 h)" "Z_ref < length (arrs3 h)" "uv_ref < length (arrs2 h)"
  shows "fst (compute_X_and_objective_multi_store prox in_place X_ref Z_ref uv_ref w feas c h)
     = compute_X_and_objective_multi prox (arrs3 h ! X_ref) (arrs3 h ! Z_ref) (arrs2 h ! uv_ref)
         w feas c"
  using assms
  by (auto simp: compute_X_and_objective_multi_store_def compute_X_and_objective_multi_def
      copy3_def copy2_def prox_uv_store_def reconstruct_and_score_value Let_def nth_append
      split: sum.splits prod.splits)

section \<open>Facts about one iteration\<close>

lemma append_objective_Inr:
  "append_objective E cfg X st = Inr st' \<Longrightarrow>
   \<exists>v. compute_X_and_objective_multi (prox_uv E) X (Z_hat st) (uv_hat st) (reg cfg) True
         (uv_constraint cfg) = Inr v
     \<and> st' = st\<lparr>pobj := pobj st @ [v], events := events st @ [Evaluate True (reg cfg)]\<rparr>"
  by (auto simp: append_objective_def Let_def split: sum.splits)

lemma append_objective_eq:
  "compute_X_and_objective_multi (prox_uv E) X (Z_hat st) (uv_hat st) (reg cfg) True
         (uv_constraint cfg) = Inr v \<Longrightarrow>
   append_objective E cfg X st = Inr (st\<lparr>pobj := pobj st @ [v], events := events st @ [Evaluate True (reg cfg)]\<rparr>)"
  by (simp add: append_objective_def Let_def)

lemma append_objective_Inl:
  "append_objective E cfg X st = Inl (e, lg) \<Longrightarrow>
   compute_X_and_objective_multi (prox_uv E) X (Z_hat st) (uv_hat st) (reg cfg) True
         (uv_constraint cfg) = Inl e \<and> lg = events st @ [Evaluate True (reg cfg)]"
  by (auto simp: append_objective_def Let_def split: sum.splits)

lemma iteration_degenerate:
  assumes "update_z_multi E X (uv_hat st) (if ii = 1 then reg cfg else reg_cur st) (Z_hat st)
             (solver_z cfg) (solver_z_kwargs cfg) = Inr Z"
    and "all_zero Z"
  shows "iteration E cfg X b ii st =
           Inr (Break, st\<lparr>reg_cur := (if ii = 1 then reg cfg else reg_cur st),
                  Z_hat := Z, times_l := times_l st @ [elapsed E (length (times_l st))],
                  events := events st @ [SparseCode ii (if ii = 1 then reg cfg else reg_cur st), Warning]\<rparr>)"
  using assms by (cases "ii = 1") (simp_all add: iteration_def Let_def)

lemma iteration_complete:
  assumes z: "update_z_multi E X (uv_hat st) r (Z_hat st) (solver_z cfg) (solver_z_kwargs cfg) = Inr Z"
    and r: "r = (if ii = 1 then reg cfg else reg_cur st)"
    and nz: "\<not> all_zero Z"
    and a: "compute_X_and_objective_multi (prox_uv E) X Z (uv_hat st) (reg cfg) True (uv_constraint cfg) = Inr a"
    and d: "call_func_d E cfg X Z (uv_hat st) b = Inr uv"
    and c: "compute_X_and_objective_multi (prox_uv E) X Z uv (reg cfg) True (uv_constraint cfg) = Inr c"
  shows "iteration E cfg X b ii st =
    (case run_callback E cfg X ii
       (st\<lparr>reg_cur := r, Z_hat := Z, uv_hat := uv,
           times_l := times_l st @ [elapsed E (length (times_l st)), elapsed E (Suc (length (times_l st)))],
           pobj := pobj st @ [a, c],
           events := events st @ [SparseCode ii r, Evaluate True (reg cfg), Dictionary ii, Evaluate True (reg cfg)]\<rparr>) of
       Inl e \<Rightarrow> Inl e
     | Inr st9 \<Rightarrow> Inr (stopping_rules cfg (pobj st9), st9))"
  using assms by (cases "ii = 1") (simp_all add: iteration_def Let_def append_objective_def)

lemma run_callback_Inr:
  "run_callback E cfg X ii st = Inr st' \<Longrightarrow>
     pobj st' = pobj st \<and> times_l st' = times_l st \<and> uv_hat st' = uv_hat st \<and> Z_hat st' = Z_hat st
     \<and> reg_cur st' = reg_cur st
     \<and> (Warning \<in> set (events st') \<longleftrightarrow> Warning \<in> set (events st))"
  by (auto simp: run_callback_def Let_def split: option.splits)

text \<open>
  An iteration that does not raise either stops at the all-zero check or runs to the end
  of the loop body.
\<close>

lemma iteration_Inr:
  assumes it: "iteration E cfg X b ii st = Inr (fl, st')"
  obtains (degenerate) Z where
      "update_z_multi E X (uv_hat st) (if ii = 1 then reg cfg else reg_cur st) (Z_hat st)
         (solver_z cfg) (solver_z_kwargs cfg) = Inr Z"
      "all_zero Z" "fl = Break"
      "st' = st\<lparr>reg_cur := (if ii = 1 then reg cfg else reg_cur st), Z_hat := Z,
                  times_l := times_l st @ [elapsed E (length (times_l st))],
                  events := events st @
                    [SparseCode ii (if ii = 1 then reg cfg else reg_cur st), Warning]\<rparr>"
  | (complete) Z a uv c where
      "update_z_multi E X (uv_hat st) (if ii = 1 then reg cfg else reg_cur st) (Z_hat st)
         (solver_z cfg) (solver_z_kwargs cfg) = Inr Z"
      "\<not> all_zero Z"
      "compute_X_and_objective_multi (prox_uv E) X Z (uv_hat st) (reg cfg) True
         (uv_constraint cfg) = Inr a"
      "call_func_d E cfg X Z (uv_hat st) b = Inr uv"
      "compute_X_and_objective_multi (prox_uv E) X Z uv (reg cfg) True (uv_constraint cfg) = Inr c"
      "pobj st' = pobj st @ [a, c]"
      "times_l st' = times_l st @
         [elapsed E (length (times_l st)), elapsed E (Suc (length (times_l st)))]"
      "Z_hat st' = Z" "uv_hat st' = uv"
      "reg_cur st' = (if ii = 1 then reg cfg else reg_cur st)"
      "fl = stopping_rules cfg (pobj st @ [a, c])"
      "Warning \<in> set (events st') \<longleftrightarrow> Warning \<in> set (events st)"
proof -
  let ?r = "if ii = 1 then reg cfg else reg_cur st"
  obtain Z where z: "update_z_multi E X (uv_hat st) ?r (Z_hat st) (solver_z cfg) (solver_z_kwargs cfg) = Inr Z"
    using it by (cases "update_z_multi E X (uv_hat st) ?r (Z_hat st) (solver_z cfg) (solver_z_kwargs cfg)")
      (cases "ii = 1"; simp add: iteration_def Let_def)+
  show thesis
  proof (cases "all_zero Z")
    case True
    from it iteration_degenerate[OF z True, of b] have "fl = Break"
      and "st' = st\<lparr>reg_cur := ?r, Z_hat := Z,
                  times_l := times_l st @ [elapsed E (length (times_l st))],
                  events := events st @ [SparseCode ii ?r, Warning]\<rparr>"
      by simp_all
    with z True show thesis by (rule degenerate)
  next
    case nzZ: False
    obtain a where a: "compute_X_and_objective_multi (prox_uv E) X Z (uv_hat st) (reg cfg) True (uv_constraint cfg) = Inr a"
      using it z nzZ
      by (cases "compute_X_and_objective_multi (prox_uv E) X Z (uv_hat st) (reg cfg) True (uv_constraint cfg)")
        (cases "ii = 1"; simp add: iteration_def Let_def append_objective_def)+
    obtain uv where d: "call_func_d E cfg X Z (uv_hat st) b = Inr uv"
      using it z nzZ a
      by (cases "call_func_d E cfg X Z (uv_hat st) b")
        (cases "ii = 1"; simp add: iteration_def Let_def append_objective_def)+
    obtain c where c: "compute_X_and_objective_multi (prox_uv E) X Z uv (reg cfg) True (uv_constraint cfg) = Inr c"
      using it z nzZ a d
      by (cases "compute_X_and_objective_multi (prox_uv E) X Z uv (reg cfg) True (uv_constraint cfg)")
        (cases "ii = 1"; simp add: iteration_def Let_def append_objective_def)+
    let ?st = "st\<lparr>reg_cur := ?r, Z_hat := Z, uv_hat := uv,
           times_l := times_l st @ [elapsed E (length (times_l st)), elapsed E (Suc (length (times_l st)))],
           pobj := pobj st @ [a, c],
           events := events st @ [SparseCode ii ?r, Evaluate True (reg cfg), Dictionary ii, Evaluate True (reg cfg)]\<rparr>"
    from it iteration_complete[OF z refl nzZ a d c]
    have "\<exists>st9. run_callback E cfg X ii ?st = Inr st9
         \<and> fl = stopping_rules cfg (pobj st9) \<and> st' = st9"
      by (auto split: sum.splits)
    then obtain st9 where cb: "run_callback E cfg X ii ?st = Inr st9"
       and fl: "fl = stopping_rules cfg (pobj st9)" and st': "st' = st9" by blast
    from run_callback_Inr[OF cb] fl st'
    have "pobj st' = pobj st @ [a, c]"
      "times_l st' = times_l st @
         [elapsed E (length (times_l st)), elapsed E (Suc (length (times_l st)))]"
      "Z_hat st' = Z" "uv_hat st' = uv" "reg_cur st' = ?r"
      "fl = stopping_rules cfg (pobj st @ [a, c])"
      "Warning \<in> set (events st') \<longleftrightarrow> Warning \<in> set (events st)"
      by simp_all
    with z nzZ a d c show thesis by (rule complete)
  qed
qed

lemma iteration_full:
  assumes it: "iteration E cfg X b ii st = Inr (fl, st')" and nz: "\<not> all_zero (Z_hat st')"
  shows "\<exists>Z a uv c.
      update_z_multi E X (uv_hat st) (if ii = 1 then reg cfg else reg_cur st) (Z_hat st)
             (solver_z cfg) (solver_z_kwargs cfg) = Inr Z
    \<and> compute_X_and_objective_multi (prox_uv E) X Z (uv_hat st) (reg cfg) True (uv_constraint cfg) = Inr a
    \<and> call_func_d E cfg X Z (uv_hat st) b = Inr uv
    \<and> compute_X_and_objective_multi (prox_uv E) X Z uv (reg cfg) True (uv_constraint cfg) = Inr c
    \<and> pobj st' = pobj st @ [a, c]
    \<and> times_l st' = times_l st @ [elapsed E (length (times_l st)), elapsed E (Suc (length (times_l st)))]
    \<and> Z_hat st' = Z \<and> uv_hat st' = uv
    \<and> reg_cur st' = (if ii = 1 then reg cfg else reg_cur st)
    \<and> fl = stopping_rules cfg (pobj st @ [a, c])"
  using it
proof (cases rule: iteration_Inr)
  case (degenerate Z)
  with nz show ?thesis by simp
next
  case (complete Z a uv c)
  then show ?thesis by blast
qed

lemma iteration_reg_cur:
  assumes "iteration E cfg X b ii st = Inr (fl, st')"
  shows "reg_cur st' = (if ii = 1 then reg cfg else reg_cur st)"
  using assms by (cases rule: iteration_Inr) simp_all

lemma iteration_pobj:
  assumes "iteration E cfg X b ii st = Inr (fl, st')"
  shows "\<exists>new. pobj st' = pobj st @ new"
  using assms by (cases rule: iteration_Inr) simp_all

lemma stopping_rules_last_two:
  "stopping_rules cfg (p @ [a, c]) =
     (if a - c < eps cfg then Break
      else (case stopping_pobj cfg of None \<Rightarrow> Continue
            | Some t \<Rightarrow> if c < t then Break else Continue))"
  by (simp add: stopping_rules_def nth_append split: option.splits)

lemma run_callback_events:
  "\<exists>new. events_of (run_callback E cfg X ii st) = events st @ new \<and> filter is_sparse_code new = []"
  by (auto simp: run_callback_def events_of_def Let_def split: option.splits)

lemma iteration_events:
  "\<exists>new. events_of (map_sum id snd (iteration E cfg X b ii st))
          = events st @ SparseCode ii (if ii = 1 then reg cfg else reg_cur st) # new
        \<and> filter is_sparse_code new = []"
proof -
  let ?r = "if ii = 1 then reg cfg else reg_cur st"
  let ?z = "update_z_multi E X (uv_hat st) ?r (Z_hat st) (solver_z cfg) (solver_z_kwargs cfg)"
  show ?thesis
  proof (cases ?z)
    case (Inl e)
    then show ?thesis
      by (cases "ii = 1") (simp_all add: iteration_def Let_def events_of_def)
  next
    case z: (Inr Z)
    show ?thesis
    proof (cases "all_zero Z")
      case True
      show ?thesis
        by (simp add: iteration_degenerate[OF z True] events_of_def)
    next
      case nz: False
      let ?a = "compute_X_and_objective_multi (prox_uv E) X Z (uv_hat st) (reg cfg) True (uv_constraint cfg)"
      show ?thesis
      proof (cases ?a)
        case (Inl e)
        with z nz show ?thesis
          by (cases "ii = 1") (simp_all add: iteration_def Let_def events_of_def append_objective_def)
      next
        case a: (Inr a)
        show ?thesis
        proof (cases "call_func_d E cfg X Z (uv_hat st) b")
          case (Inl e)
          with z nz a show ?thesis
            by (cases "ii = 1") (simp_all add: iteration_def Let_def events_of_def append_objective_def)
        next
          case d: (Inr uv)
          let ?c = "compute_X_and_objective_multi (prox_uv E) X Z uv (reg cfg) True (uv_constraint cfg)"
          show ?thesis
          proof (cases ?c)
            case (Inl e)
            with z nz a d show ?thesis
              by (cases "ii = 1") (simp_all add: iteration_def Let_def events_of_def append_objective_def)
          next
            case c: (Inr c)
            let ?st = "st\<lparr>reg_cur := ?r, Z_hat := Z, uv_hat := uv,
               times_l := times_l st @ [elapsed E (length (times_l st)), elapsed E (Suc (length (times_l st)))],
               pobj := pobj st @ [a, c],
               events := events st @ [SparseCode ii ?r, Evaluate True (reg cfg), Dictionary ii, Evaluate True (reg cfg)]\<rparr>"
            from run_callback_events[of E cfg X ii ?st] obtain new where
              n: "events_of (run_callback E cfg X ii ?st) = events ?st @ new"
                 "filter is_sparse_code new = []" by blast
            have "events_of (map_sum id snd (iteration E cfg X b ii st))
                    = events_of (run_callback E cfg X ii ?st)"
              unfolding iteration_complete[OF z refl nz a d c]
              by (simp add: events_of_def split: sum.splits)
            with n show ?thesis by simp
          qed
        qed
      qed
    qed
  qed
qed

text \<open>The iteration reads the sparse-code stage at one tuple of arguments only.\<close>

lemma append_objective_stage:
  "append_objective (E\<lparr>update_z_multi := f\<rparr>) cfg X st = append_objective E cfg X st"
  by (simp add: append_objective_def)

lemma call_func_d_stage:
  "call_func_d (E\<lparr>update_z_multi := f\<rparr>) cfg X Z uv b = call_func_d E cfg X Z uv b"
  by (simp add: call_func_d_def Let_def)

lemma run_callback_stage:
  "run_callback (E\<lparr>update_z_multi := f\<rparr>) cfg X ii st = run_callback E cfg X ii st"
  by (simp add: run_callback_def)

lemma iteration_stage_cong:
  assumes "f X (uv_hat st) (if ii = 1 then reg cfg else reg_cur st) (Z_hat st) (solver_z cfg)
             (solver_z_kwargs cfg)
           = update_z_multi E X (uv_hat st) (if ii = 1 then reg cfg else reg_cur st) (Z_hat st)
               (solver_z cfg) (solver_z_kwargs cfg)"
  shows "iteration (E\<lparr>update_z_multi := f\<rparr>) cfg X b ii st = iteration E cfg X b ii st"
  using assms
  by (cases "ii = 1")
     (auto simp add: iteration_def Let_def append_objective_stage call_func_d_stage
        run_callback_stage split: sum.splits)

lemma iteration_stage_raises:
  assumes "update_z_multi E X (uv_hat st) (if ii = 1 then reg cfg else reg_cur st) (Z_hat st)
               (solver_z cfg) (solver_z_kwargs cfg) = Inl e"
  shows "iteration E cfg X b ii st
           = Inl (e, events st @ [SparseCode ii (if ii = 1 then reg cfg else reg_cur st)])"
  using assms by (cases "ii = 1") (simp_all add: iteration_def Let_def)

lemma iteration_stage_returns:
  assumes "update_z_multi E X (uv_hat st) (if ii = 1 then reg cfg else reg_cur st) (Z_hat st)
               (solver_z cfg) (solver_z_kwargs cfg) = Inr Z"
    and "iteration E cfg X b ii st = Inr (fl, st')"
  shows "Z_hat st' = Z"
  using assms(2)
proof (cases rule: iteration_Inr)
  case (degenerate Z1)
  with assms(1) show ?thesis by simp
next
  case (complete Z1 a uv c)
  with assms(1) show ?thesis by simp
qed

section \<open>Facts about the preparation and the loop\<close>

lemma initialise_Inr:
  assumes "initialise E cfg X = Inr (st0, b)"
  shows "\<exists>g uv0 nrm v.
      check_random_state E (random_state cfg) = Inr g
    \<and> initial_uv g cfg (fst (snd (dims3 X))) = Inr uv0
    \<and> prox_uv E uv0 (uv_constraint cfg) (fst (snd (dims3 X))) = Inr (uv_hat st0, nrm)
    \<and> randn_b g (n_atoms cfg * (int (fst (snd (dims3 X))) + n_times_atom cfg)) = Inr b
    \<and> np_zeros (n_atoms cfg) (int (fst (dims3 X)))
         (int (snd (snd (dims3 X))) - n_times_atom cfg + 1) = Inr (Z_hat st0)
    \<and> compute_X_and_objective_multi (prox_uv E) X (Z_hat st0) (uv_hat st0) (reg cfg) True
         (uv_constraint cfg) = Inr v
    \<and> pobj st0 = [v] \<and> times_l st0 = [0] \<and> reg_cur st0 = reg cfg / 100
    \<and> events st0 = [Evaluate True (reg cfg)]"
  using assms
  by (auto simp: initialise_def Let_def split: prod.splits sum.splits dest!: append_objective_Inr)

lemma initialise_Inl:
  assumes "initialise E cfg X = Inl (e, lg)"
  shows "lg = [] \<or> lg = [Evaluate True (reg cfg)]"
  using assms
  by (auto simp: initialise_def Let_def split: prod.splits sum.splits dest!: append_objective_Inl)

text \<open>
  The weight the loop holds before iteration \<open>k\<close>: the warm-up weight until iteration 1 has
  replaced it.
\<close>

lemma outer_loop_sparse_events:
  assumes "reg_cur st = (if k \<le> 1 then reg cfg / 100 else reg cfg)"
  shows "\<exists>m. k + m \<le> max k n
    \<and> filter is_sparse_code (events_of (outer_loop E cfg X b [k..<n] st))
        = filter is_sparse_code (events st)
          @ map (\<lambda>ii. SparseCode ii (warmup_weight cfg ii)) [k..<k + m]"
  using assms
proof (induction "n - k" arbitrary: k st)
  case 0
  then have e: "[k..<n] = []" by simp
  have "filter is_sparse_code (events_of (outer_loop E cfg X b [k..<n] st))
        = filter is_sparse_code (events st)
          @ map (\<lambda>ii. SparseCode ii (warmup_weight cfg ii)) [k..<k + 0]"
    unfolding e by (simp add: events_of_def)
  then show ?case by (intro exI[of _ 0]) simp
next
  case (Suc d)
  then have kn: "k < n" and d: "d = n - Suc k" by simp_all
  then have upt: "[k..<n] = k # [Suc k..<n]" by (simp add: upt_conv_Cons)
  let ?r = "if k = 1 then reg cfg else reg_cur st"
  have r: "?r = warmup_weight cfg k"
    using Suc.prems by (simp add: warmup_weight_def)
  from iteration_events[of E cfg X b k st] obtain new where
    ev: "events_of (map_sum id snd (iteration E cfg X b k st)) = events st @ SparseCode k ?r # new"
    and new: "filter is_sparse_code new = []" by blast
  have one: "[k..<k + 1] = [k]" by simp
  show ?case
  proof (cases "iteration E cfg X b k st")
    case (Inl el)
    then have "filter is_sparse_code (events_of (outer_loop E cfg X b [k..<n] st))
        = filter is_sparse_code (events st)
          @ map (\<lambda>ii. SparseCode ii (warmup_weight cfg ii)) [k..<k + 1]"
      using ev new r unfolding upt one by (simp add: events_of_def)
    with kn show ?thesis by (intro exI[of _ 1]) simp
  next
    case (Inr p)
    obtain fl st' where p: "p = (fl, st')" by (cases p)
    have ev': "events st' = events st @ SparseCode k ?r # new"
      using ev Inr p by (simp add: events_of_def)
    show ?thesis
    proof (cases fl)
      case Break
      then have "filter is_sparse_code (events_of (outer_loop E cfg X b [k..<n] st))
        = filter is_sparse_code (events st)
          @ map (\<lambda>ii. SparseCode ii (warmup_weight cfg ii)) [k..<k + 1]"
        using Inr p ev' new r unfolding upt one by (simp add: events_of_def)
      with kn show ?thesis by (intro exI[of _ 1]) simp
    next
      case Continue
      have rc: "reg_cur st' = (if Suc k \<le> 1 then reg cfg / 100 else reg cfg)"
        using iteration_reg_cur[OF Inr[unfolded p]] Suc.prems by auto
      from Suc.hyps(1)[OF d rc] obtain m where
        m: "Suc k + m \<le> max (Suc k) n"
        and f: "filter is_sparse_code (events_of (outer_loop E cfg X b [Suc k..<n] st'))
          = filter is_sparse_code (events st')
            @ map (\<lambda>ii. SparseCode ii (warmup_weight cfg ii)) [Suc k..<Suc k + m]"
        by blast
      have loop: "outer_loop E cfg X b [k..<n] st = outer_loop E cfg X b [Suc k..<n] st'"
        unfolding upt using Inr p Continue by simp
      have "[k..<k + Suc m] = k # [Suc k..<Suc k + m]" by (simp add: upt_conv_Cons)
      then have "filter is_sparse_code (events_of (outer_loop E cfg X b [k..<n] st))
          = filter is_sparse_code (events st)
            @ map (\<lambda>ii. SparseCode ii (warmup_weight cfg ii)) [k..<k + Suc m]"
        unfolding loop f ev' using new r by simp
      moreover have "k + Suc m \<le> max k n" using m kn by simp
      ultimately show ?thesis by blast
    qed
  qed
qed

lemma outer_loop_pobj:
  "outer_loop E cfg X b iis st = Inr st' \<Longrightarrow> \<exists>new. pobj st' = pobj st @ new"
proof (induction iis arbitrary: st)
  case Nil
  then show ?case by simp
next
  case (Cons ii iis)
  show ?case
  proof (cases "iteration E cfg X b ii st")
    case (Inl e)
    with Cons.prems show ?thesis by simp
  next
    case (Inr p)
    obtain fl st1 where p: "p = (fl, st1)" by (cases p)
    from iteration_pobj[OF Inr[unfolded p]] obtain new1 where n1: "pobj st1 = pobj st @ new1"
      by blast
    show ?thesis
    proof (cases fl)
      case Break
      with Cons.prems Inr p have "st' = st1" by simp
      with n1 show ?thesis by blast
    next
      case Continue
      with Cons.prems Inr p have "outer_loop E cfg X b iis st1 = Inr st'" by simp
      from Cons.IH[OF this] n1 show ?thesis by auto
    qed
  qed
qed

lemma learn_d_z_multi_Inr:
  assumes "learn_d_z_multi E cfg X = Inr st"
  obtains st0 b st1 where "initialise E cfg X = Inr (st0, b)"
    "outer_loop E cfg X b [0..<nat (n_iter cfg)] st0 = Inr st1"
    "finish E X st1 = Inr st"
  using assms
  by (auto simp: learn_d_z_multi_def split: sum.splits prod.splits)

lemma finish_pobj: "finish E X st1 = Inr st \<Longrightarrow> pobj st = pobj st1 \<and> times_l st = times_l st1"
  by (auto simp: finish_def Let_def split: sum.splits)

lemma initial_uv_dims:
  assumes "initial_uv g cfg ch = Inr uv0" and "check_random_state E seed = Inr g"
    and "draws_shape E" and "uv_init_shape cfg X" and "fst (snd (dims3 X)) = ch"
  shows "\<exists>a'. dims2 uv0 = (a', ch + nat (n_times_atom cfg))"
proof (cases "uv_init cfg")
  case None
  with assms(1) have r: "randn_uv g (n_atoms cfg) (int ch + n_times_atom cfg) = Inr uv0"
    by (simp add: initial_uv_def)
  then have uv0: "uv0 = randn2 g (nat (n_atoms cfg)) (nat (int ch + n_times_atom cfg))"
    by (auto simp: randn_uv_def split: if_splits)
  from assms(2,3) have "dims2 uv0 = (nat (n_atoms cfg), nat (int ch + n_times_atom cfg))"
    unfolding uv0 draws_shape_def by blast
  moreover from assms(4) have "0 \<le> n_times_atom cfg" by (simp add: uv_init_shape_def)
  then have "nat (int ch + n_times_atom cfg) = ch + nat (n_times_atom cfg)" by simp
  ultimately show ?thesis by simp
next
  case (Some u)
  with assms(1) have "uv0 = u" by (simp add: initial_uv_def)
  with Some assms(4,5) show ?thesis by (simp add: uv_init_shape_def)
qed

text \<open>
  The two traces of a run that returns: the objective trace has an odd number of entries,
  the time trace begins with zero, and the time trace is as long as the objective trace
  unless the loop was left by the all-zero check, when it is one entry longer.
\<close>

lemma outer_loop_trace_lengths:
  assumes "outer_loop E cfg X b iis st = Inr st'"
    and "length (times_l st) = length (pobj st)" and "Warning \<notin> set (events st)"
    and "odd (length (pobj st))" and "hd (times_l st) = 0"
  shows "odd (length (pobj st')) \<and> hd (times_l st') = 0
    \<and> length (times_l st') = length (pobj st') + (if Warning \<in> set (events st') then 1 else 0)"
  using assms
proof (induction iis arbitrary: st)
  case Nil
  then show ?case by simp
next
  case (Cons ii iis)
  from Cons.prems(2,4) have ne: "times_l st \<noteq> []" by (cases "times_l st") auto
  show ?case
  proof (cases "iteration E cfg X b ii st")
    case (Inl e)
    with Cons.prems(1) show ?thesis by simp
  next
    case (Inr p)
    obtain fl st1 where p: "p = (fl, st1)" by (cases p)
    from Inr[unfolded p] show ?thesis
    proof (cases rule: iteration_Inr)
      case (degenerate Z)
      from Cons.prems(1) Inr p degenerate(3) have "st' = st1" by simp
      then show ?thesis
        unfolding degenerate(4) using Cons.prems(2-5) ne by simp
    next
      case (complete Z a uv c)
      with Cons.prems ne have inv: "length (times_l st1) = length (pobj st1)"
        "Warning \<notin> set (events st1)" "odd (length (pobj st1))" "hd (times_l st1) = 0"
        by simp_all
      show ?thesis
      proof (cases fl)
        case Break
        with Cons.prems(1) Inr p have "st' = st1" by simp
        with inv show ?thesis by simp
      next
        case Continue
        with Cons.prems(1) Inr p have "outer_loop E cfg X b iis st1 = Inr st'" by simp
        from Cons.IH[OF this inv] show ?thesis .
      qed
    qed
  qed
qed

lemma trace_lengths:
  assumes "learn_d_z_multi E cfg X = Inr st"
  shows "odd (length (pobj st)) \<and> hd (times_l st) = 0
    \<and> length (times_l st) = length (pobj st) + (if Warning \<in> set (events st) then 1 else 0)"
proof -
  from assms obtain st0 b st1 where init: "initialise E cfg X = Inr (st0, b)"
    and loop: "outer_loop E cfg X b [0..<nat (n_iter cfg)] st0 = Inr st1"
    and fin: "finish E X st1 = Inr st"
    by (rule learn_d_z_multi_Inr)
  from initialise_Inr[OF init] have "length (times_l st0) = length (pobj st0)"
    "Warning \<notin> set (events st0)" "odd (length (pobj st0))" "hd (times_l st0) = 0"
    by auto
  from outer_loop_trace_lengths[OF loop this]
  have "odd (length (pobj st1)) \<and> hd (times_l st1) = 0
    \<and> length (times_l st1) = length (pobj st1) + (if Warning \<in> set (events st1) then 1 else 0)" .
  moreover from fin have "pobj st = pobj st1" "times_l st = times_l st1"
    "events st = events st1 @ [LeastSquares]"
    by (auto simp: finish_def Let_def split: sum.splits)
  ultimately show ?thesis by simp
qed

lemma loop_state_Suc:
  assumes "loop_state E cfg X b st0 (Suc k) = Some st'"
  obtains st where "loop_state E cfg X b st0 k = Some st"
    "iteration E cfg X b k st = Inr (Continue, st')"
  using assms by (auto split: option.splits sum.splits prod.splits flow.splits)

lemma loop_state_reg_cur:
  assumes "loop_state E cfg X b st0 k = Some st" and "reg_cur st0 = reg cfg / 100"
  shows "reg_cur st = (if k \<le> 1 then reg cfg / 100 else reg cfg)"
  using assms
proof (induction k arbitrary: st)
  case 0
  then show ?case by simp
next
  case (Suc k)
  from Suc.prems(1) obtain s where s: "loop_state E cfg X b st0 k = Some s"
    and it: "iteration E cfg X b k s = Inr (Continue, st)"
    by (rule loop_state_Suc)
  from Suc.IH[OF s Suc.prems(2)] iteration_reg_cur[OF it] show ?case by auto
qed

lemma outer_loop_from_loop_state:
  assumes "loop_state E cfg X b st0 k = Some st" and "k \<le> n"
  shows "outer_loop E cfg X b [0..<n] st0 = outer_loop E cfg X b [k..<n] st"
  using assms
proof (induction k arbitrary: st)
  case 0
  then show ?case by simp
next
  case (Suc k)
  from Suc.prems(1) obtain s where s: "loop_state E cfg X b st0 k = Some s"
    and it: "iteration E cfg X b k s = Inr (Continue, st)"
    by (rule loop_state_Suc)
  from Suc.prems(2) have "[k..<n] = k # [Suc k..<n]" by (simp add: upt_conv_Cons)
  with Suc.IH[OF s] Suc.prems(2) it show ?case by simp
qed

text \<open>
  The log of a run, whether it returns or raises, holds the calls of the sparse-code stage
  of iterations \<open>0, 1, \<dots>, m - 1\<close> in this order, each with the weight of the schedule.
\<close>

lemma sparse_code_events_follow_schedule:
  "\<exists>m. m \<le> nat (n_iter cfg)
     \<and> filter is_sparse_code (events_of (learn_d_z_multi E cfg X))
         = map (\<lambda>ii. SparseCode ii (warmup_weight cfg ii)) [0..<m]"
proof (cases "initialise E cfg X")
  case (Inl el)
  obtain e lg where el: "el = (e, lg)" by (cases el)
  from initialise_Inl[OF Inl[unfolded el]] have "filter is_sparse_code lg = []" by auto
  then have "filter is_sparse_code (events_of (learn_d_z_multi E cfg X))
         = map (\<lambda>ii. SparseCode ii (warmup_weight cfg ii)) [0..<0]"
    using Inl el by (simp add: learn_d_z_multi_def events_of_def)
  then show ?thesis by (intro exI[of _ 0]) simp
next
  case (Inr p)
  obtain st0 b where p: "p = (st0, b)" by (cases p)
  from initialise_Inr[OF Inr[unfolded p]]
  have rc: "reg_cur st0 = (if (0::nat) \<le> 1 then reg cfg / 100 else reg cfg)"
    and ev0: "filter is_sparse_code (events st0) = []" by auto
  from outer_loop_sparse_events[OF rc, of "nat (n_iter cfg)" E X b] ev0 obtain m where
    m: "m \<le> nat (n_iter cfg)"
    and f: "filter is_sparse_code (events_of (outer_loop E cfg X b [0..<nat (n_iter cfg)] st0))
          = map (\<lambda>ii. SparseCode ii (warmup_weight cfg ii)) [0..<m]"
    by auto
  have "filter is_sparse_code (events_of (learn_d_z_multi E cfg X))
      = filter is_sparse_code (events_of (outer_loop E cfg X b [0..<nat (n_iter cfg)] st0))"
    using Inr p
    by (auto simp: learn_d_z_multi_def events_of_def finish_def Let_def split: sum.splits)
  with m f show ?thesis by auto
qed

section \<open>The examples, evaluated\<close>

lemmas arr_defs = at2_def at3_def tabulate3_def tabulate2_def np_zeros_def np_sum_def bdim_def
  bidx_def np_binop_def imul_rows_def all_zero_def get_D_def construct_X_multi_def objective_def
  compute_X_and_objective_multi_def norm_l2_def norm_inf_def prox_uv_spec_def Let_def
  eval_nat_numeral

lemma ex_obj_init:
  "compute_X_and_objective_multi prox_uv_spec ex_X ex_Z0 ex_uv0 r True ''separate'' = Inr 2"
  by (simp add: ex_uv0_def ex_X_def ex_Z0_def arr_defs)

lemma ex_obj_z:
  "compute_X_and_objective_multi prox_uv_spec ex_X ex_Z ex_uv0 (1/4) True ''separate'' = Inr 1"
  by (simp add: ex_uv0_def ex_X_def ex_Z_def arr_defs)

lemma ex_obj_d:
  "compute_X_and_objective_multi prox_uv_spec ex_X ex_Z ex_uv (1/4) True ''separate'' = Inr (1/2)"
  by (simp add: ex_uv_def ex_X_def ex_Z_def arr_defs)

lemma ex_obj_big:
  "compute_X_and_objective_multi prox_uv_spec ex_X ex_Z ex_uv_big (1/4) True ''separate'' = Inr 3"
  by (simp add: ex_uv_big_def ex_X_def ex_Z_def arr_defs)

lemma ex_obj_big_raw:
  "compute_X_and_objective_multi prox_uv_spec ex_X ex_Z ex_uv_big (1/4) False ''separate'' = Inr (5/2)"
  by (simp add: ex_uv_big_def ex_X_def ex_Z_def arr_defs)

lemma ex_all_zero: "all_zero ex_Z0" "\<not> all_zero ex_Z"
  by (simp_all add: ex_Z0_def ex_Z_def arr_defs)

lemma ex_prox_uv0: "prox_uv_spec ex_uv0 ''separate'' (Suc 0) = Inr (ex_uv0, [1])"
  by (simp add: ex_uv0_def arr_defs)

lemma ex_zeros: "np_zeros 1 1 2 = Inr ex_Z0"
  by (simp add: ex_Z0_def arr_defs)

text \<open>The lines before the loop, for the example inputs and any weight, budget and solver.\<close>

lemma ex_initialise:
  assumes "uv_init cfg = Some ex_uv0" "n_atoms cfg = 1" "n_times_atom cfg = 1"
    "uv_constraint cfg = ''separate''"
  shows "initialise (ex_env Z uv) cfg ex_X =
     Inr (\<lparr>pobj = [2], times_l = [0], uv_hat = ex_uv0, Z_hat = ex_Z0, reg_cur = reg cfg / 100,
           events = [Evaluate True (reg cfg)]\<rparr>, replicate 2 0)"
proof -
  have d: "dims3 ex_X = (1, 1, 2)" by (simp add: ex_X_def)
  show ?thesis
    using assms
    by (simp add: initialise_def initial_uv_def d ex_env_def ex_rng_def randn_b_def ex_prox_uv0 ex_zeros
        append_objective_def ex_obj_init Let_def)
qed

lemma ex_call_func_d:
  "solver_d_kwargs cfg = Map.empty \<Longrightarrow> call_func_d (ex_env Z uv) cfg X Z' u b = Inr uv"
  by (simp add: call_func_d_def d_kwargs_def ex_env_def Let_def)

lemma ex_iteration:
  assumes cfg: "reg cfg = 1 / 4" "uv_constraint cfg = ''separate''" "solver_d_kwargs cfg = Map.empty"
    and a: "compute_X_and_objective_multi prox_uv_spec ex_X ex_Z u (1 / 4) True ''separate'' = Inr a"
    and c: "compute_X_and_objective_multi prox_uv_spec ex_X ex_Z uv (1 / 4) True ''separate'' = Inr c"
    and r: "r = (if ii = 1 then reg cfg else reg_cur st)"
    and u: "uv_hat st = u"
  shows "iteration (ex_env ex_Z uv) cfg ex_X b ii st =
     Inr (stopping_rules cfg (pobj st @ [a, c]),
          st\<lparr>reg_cur := r, Z_hat := ex_Z, uv_hat := uv,
             times_l := times_l st @ [1, 1], pobj := pobj st @ [a, c],
             events := events st @ [SparseCode ii r, Evaluate True (1 / 4), Dictionary ii,
               Evaluate True (1 / 4)]\<rparr>)"
proof -
  have z: "update_z_multi (ex_env ex_Z uv) ex_X (uv_hat st) r (Z_hat st) (solver_z cfg)
             (solver_z_kwargs cfg) = Inr ex_Z"
    by (simp add: ex_env_def)
  have p: "prox_uv (ex_env ex_Z uv) = prox_uv_spec" by (simp add: ex_env_def)
  have a': "compute_X_and_objective_multi (prox_uv (ex_env ex_Z uv)) ex_X ex_Z (uv_hat st) (reg cfg) True (uv_constraint cfg) = Inr a"
    unfolding p cfg(1) cfg(2) u by (rule a)
  have c': "compute_X_and_objective_multi (prox_uv (ex_env ex_Z uv)) ex_X ex_Z uv (reg cfg) True (uv_constraint cfg) = Inr c"
    unfolding p cfg(1) cfg(2) by (rule c)
  show ?thesis
    using iteration_complete[OF z r ex_all_zero(2) a' ex_call_func_d[OF cfg(3)] c', of b]
    by (simp add: run_callback_def ex_env_def cfg)
qed

lemma ex_finish: "finish (ex_env Z uv) X st = Inr (st\<lparr>events := events st @ [LeastSquares]\<rparr>)"
  by (simp add: finish_def ex_env_def Let_def)

lemma ex_cfg_fields:
  "uv_init ex_cfg = Some ex_uv0" "n_atoms ex_cfg = 1" "n_times_atom ex_cfg = 1"
  "uv_constraint ex_cfg = ''separate''" "reg ex_cfg = 1 / 4" "solver_d_kwargs ex_cfg = Map.empty"
  "n_iter ex_cfg = 2" "stopping_pobj ex_cfg = None" "eps ex_cfg = 1 / 10 ^ 10"
  by (simp_all add: ex_cfg_def)

lemma ex_run_pobj:
  assumes cfg: "uv_init cfg = Some ex_uv0" "n_atoms cfg = 1" "n_times_atom cfg = 1"
      "uv_constraint cfg = ''separate''" "reg cfg = 1 / 4" "solver_d_kwargs cfg = Map.empty"
      "n_iter cfg = 2" "eps cfg = 1 / 10 ^ 10"
    and sp: "stopping_pobj cfg = None \<or> stopping_pobj cfg = Some (1 / 2)"
  shows "map_sum id pobj (learn_d_z_multi (ex_env ex_Z ex_uv) cfg ex_X) = Inr [2, 1, 1 / 2, 1 / 2, 1 / 2]"
proof -
  note it0 = ex_iteration[OF cfg(5) cfg(4) cfg(6) ex_obj_z ex_obj_d refl]
  note it1 = ex_iteration[OF cfg(5) cfg(4) cfg(6) ex_obj_d ex_obj_d refl]
  show ?thesis
    using sp
    by (auto simp add: learn_d_z_multi_def ex_initialise[OF cfg(1-4)] cfg(7,8) ex_finish
      eval_nat_numeral it0 it1 stopping_rules_def)
qed

lemma ex_iteration0:
  assumes a: "compute_X_and_objective_multi prox_uv_spec ex_X ex_Z ex_uv0 (1 / 4) True ''separate'' = Inr a"
    and c: "compute_X_and_objective_multi prox_uv_spec ex_X ex_Z uv (1 / 4) True ''separate'' = Inr c"
    and cfg: "reg cfg = 1 / 4" "uv_constraint cfg = ''separate''" "solver_d_kwargs cfg = Map.empty"
  shows "iteration (ex_env ex_Z uv) cfg ex_X b 0 ex_st0 =
           Inr (stopping_rules cfg [2, a, c], ex_st1 uv a c)"
  using ex_iteration[OF cfg a c refl, where st = ex_st0 and ii = 0 and b = b]
  by (simp add: ex_st0_def ex_st1_def)

lemma ex_st1_fields:
  "pobj (ex_st1 uv a c) = [2, a, c]" "Z_hat (ex_st1 uv a c) = ex_Z" "uv_hat (ex_st1 uv a c) = uv"
  by (simp_all add: ex_st1_def)

lemma ex_st0_fields:
  "pobj ex_st0 = [2]" "Z_hat ex_st0 = ex_Z0" "uv_hat ex_st0 = ex_uv0" "reg_cur ex_st0 = 1 / 400"
  "times_l ex_st0 = [0]" "events ex_st0 = [Evaluate True (1 / 4)]"
  by (simp_all add: ex_st0_def)

lemma ex_env_fields:
  "prox_uv (ex_env Z uv) = prox_uv_spec"
  "update_z_multi (ex_env Z uv) X u r z0 s kw = Inr Z"
  "support_least_square (ex_env Z uv) X u Z0 = Inr Z0"
  "elapsed (ex_env Z uv) k = 1"
  by (simp_all add: ex_env_def)

lemma ex_stop_continue: "stopping_rules ex_cfg [2, 1, 1 / 2] = Continue"
  by (simp add: stopping_rules_def ex_cfg_def eval_nat_numeral)

lemma ex_it0:
  "iteration (ex_env ex_Z ex_uv) ex_cfg ex_X [0, 0] 0 ex_st0 = Inr (Continue, ex_st1 ex_uv 1 (1 / 2))"
  using ex_iteration0[OF ex_obj_z ex_obj_d ex_cfg_fields(5,4,6), where b = "[0, 0]"]
  by (simp only: ex_stop_continue)

lemma ex_cfg_target_fields:
  "uv_init ex_cfg_target = Some ex_uv0" "n_atoms ex_cfg_target = 1" "n_times_atom ex_cfg_target = 1"
  "uv_constraint ex_cfg_target = ''separate''" "reg ex_cfg_target = 1 / 4"
  "solver_d_kwargs ex_cfg_target = Map.empty"
  "n_iter ex_cfg_target = 2" "eps ex_cfg_target = 1 / 10 ^ 10"
  "stopping_pobj ex_cfg_target = Some (1 / 2)"
  by (simp_all add: ex_cfg_target_def ex_cfg_def)

lemma ex_stop_target: "stopping_rules ex_cfg_target [2, 1, 1 / 2] = Continue"
  by (simp add: stopping_rules_def ex_cfg_target_fields eval_nat_numeral)

lemma ex_it0_target:
  "iteration (ex_env ex_Z ex_uv) ex_cfg_target ex_X [0, 0] 0 ex_st0
     = Inr (Continue, ex_st1 ex_uv 1 (1 / 2))"
  using ex_iteration0[OF ex_obj_z ex_obj_d ex_cfg_target_fields(5,4,6), where b = "[0, 0]"]
  by (simp only: ex_stop_target)

lemma ex_stop_big: "stopping_rules ex_cfg [2, 1, 3] = Break"
  by (simp add: stopping_rules_def ex_cfg_def eval_nat_numeral)

lemma ex_it0_big:
  "iteration (ex_env ex_Z ex_uv_big) ex_cfg ex_X [0, 0] 0 ex_st0 = Inr (Break, ex_st1 ex_uv_big 1 3)"
  using ex_iteration0[OF ex_obj_z ex_obj_big ex_cfg_fields(5,4,6), where b = "[0, 0]"]
  by (simp only: ex_stop_big)

lemma ex_cfg_zero_fields:
  "uv_init ex_cfg_zero = Some ex_uv0" "n_atoms ex_cfg_zero = 1" "n_times_atom ex_cfg_zero = 1"
  "uv_constraint ex_cfg_zero = ''separate''" "reg ex_cfg_zero = 1 / 4" "n_iter ex_cfg_zero = 0"
  "random_state ex_cfg_zero = None"
  by (simp_all add: ex_cfg_zero_def ex_cfg_def)

lemma ex_cfg_bad_fields:
  "uv_init ex_cfg_bad = Some ex_uv0" "n_atoms ex_cfg_bad = 1" "n_times_atom ex_cfg_bad = 1"
  "uv_constraint ex_cfg_bad = ''separate''" "reg ex_cfg_bad = - 1" "n_iter ex_cfg_bad = 0"
  "solver_z ex_cfg_bad = ''no_such_solver''"
  by (simp_all add: ex_cfg_bad_def ex_cfg_def)

lemma ex_cfg_mode_fields:
  "uv_init ex_cfg_mode = Some ex_uv0" "uv_constraint ex_cfg_mode = ''no_such_mode''"
  "random_state ex_cfg_mode = None" "n_iter ex_cfg_mode = 2"
  by (simp_all add: ex_cfg_mode_def ex_cfg_def)

lemma ex_dims: "dims3 ex_X = (1, 1, 2)"
  by (simp add: ex_X_def)

lemma ex_prox_mode: "prox_uv_spec ex_uv0 ''no_such_mode'' n = Inl ValueError"
  by (simp add: prox_uv_spec_def ex_uv0_def)

lemma ex_rng_draw: "randn_b ex_rng 2 = Inr [0, 0]"
  by (simp add: randn_b_def ex_rng_def eval_nat_numeral)

lemma ex_store_eval:
  "compute_X_and_objective_multi_store prox_uv_spec True 0 1 0 (1 / 4) True ''separate'' ex_store
     = (Inr 3, \<lparr>arrs3 = [ex_X, ex_Z, \<lparr>dims3 = (1, 1, 2), vals3 = [[[4, 0]]]\<rparr>],
                arrs2 = [ex_uv_big, ex_uv]\<rparr>)"
  by (simp add: compute_X_and_objective_multi_store_def copy3_def copy2_def prox_uv_store_def
      reconstruct_and_score_def ex_store_def ex_X_def ex_Z_def ex_uv_big_def ex_uv_def arr_defs)

lemma ex_run:
  "learn_d_z_multi (ex_env ex_Z ex_uv) ex_cfg ex_X =
     Inr \<lparr>pobj = [2, 1, 1 / 2, 1 / 2, 1 / 2], times_l = [0, 1, 1, 1, 1], uv_hat = ex_uv,
          Z_hat = ex_Z, reg_cur = 1 / 4,
          events = [Evaluate True (1 / 4),
            SparseCode 0 (1 / 400), Evaluate True (1 / 4), Dictionary 0, Evaluate True (1 / 4),
            SparseCode 1 (1 / 4), Evaluate True (1 / 4), Dictionary 1, Evaluate True (1 / 4),
            LeastSquares]\<rparr>"
proof -
  note cfg = ex_cfg_fields
  note it0 = ex_iteration[OF cfg(5) cfg(4) cfg(6) ex_obj_z ex_obj_d refl]
  note it1 = ex_iteration[OF cfg(5) cfg(4) cfg(6) ex_obj_d ex_obj_d refl]
  show ?thesis
    by (simp add: learn_d_z_multi_def ex_initialise[OF cfg(1-4)] cfg(5,7,8,9) ex_finish
      eval_nat_numeral it0 it1 stopping_rules_def)
qed

lemma ex_initialise_st0:
  "initialise (ex_env ex_Z ex_uv) ex_cfg ex_X = Inr (ex_st0, [0, 0])"
  by (simp add: ex_initialise[OF ex_cfg_fields(1-4)] ex_cfg_fields(5) ex_st0_def
      eval_nat_numeral)

lemma ex_loop_state1:
  "loop_state (ex_env ex_Z ex_uv) ex_cfg ex_X [0, 0] ex_st0 1 = Some (ex_st1 ex_uv 1 (1 / 2))"
  by (simp add: ex_it0)

lemma ex_budget: "(1::nat) < nat (n_iter ex_cfg)"
  by (simp add: ex_cfg_fields)

lemma ex_stage_agrees:
  "ex_stage_quarter ex_X (uv_hat (ex_st1 ex_uv 1 (1 / 2))) (warmup_weight ex_cfg 1)
      (Z_hat (ex_st1 ex_uv 1 (1 / 2))) (solver_z ex_cfg) (solver_z_kwargs ex_cfg)
   = update_z_multi (ex_env ex_Z ex_uv) ex_X (uv_hat (ex_st1 ex_uv 1 (1 / 2)))
      (warmup_weight ex_cfg 1) (Z_hat (ex_st1 ex_uv 1 (1 / 2))) (solver_z ex_cfg)
      (solver_z_kwargs ex_cfg)"
  by (simp add: ex_stage_quarter_def warmup_weight_def ex_cfg_fields ex_env_fields)

lemma ex_cfg_wide_fields:
  "uv_init ex_cfg_wide = Some ex_uv_wide" "n_atoms ex_cfg_wide = 1" "n_times_atom ex_cfg_wide = 1"
  "uv_constraint ex_cfg_wide = ''separate''" "reg ex_cfg_wide = 1 / 4" "n_iter ex_cfg_wide = 0"
  "random_state ex_cfg_wide = None"
  by (simp_all add: ex_cfg_wide_def ex_cfg_def)

lemma ex_prox_wide: "prox_uv_spec ex_uv_wide ''separate'' (Suc 0) = Inr (ex_uv_wide, [1])"
  by (simp add: ex_uv_wide_def arr_defs)

lemma ex_obj_wide:
  "compute_X_and_objective_multi prox_uv_spec ex_X1 ex_Z0_one ex_uv_wide r True ''separate''
     = Inr 4"
  by (simp add: ex_uv_wide_def ex_X1_def ex_Z0_one_def arr_defs)

lemma ex_half_sum_squares1: "half_sum_squares ex_X1 = 2"
  by (simp add: half_sum_squares_def ex_X1_def at3_def)

lemma ex_run_wide:
  "learn_d_z_multi (ex_env ex_Z ex_uv) ex_cfg_wide ex_X1 =
     Inr \<lparr>pobj = [4], times_l = [0], uv_hat = ex_uv_wide,
          Z_hat = ex_Z0_one, reg_cur = 1 / 400,
          events = [Evaluate True (1 / 4), LeastSquares]\<rparr>"
proof -
  have d: "dims3 ex_X1 = (1, 1, 1)" by (simp add: ex_X1_def)
  have z: "np_zeros 1 1 1 = Inr ex_Z0_one"
    by (simp add: ex_Z0_one_def arr_defs)
  show ?thesis
    by (simp add: learn_d_z_multi_def initialise_def initial_uv_def d ex_env_def ex_rng_def
        randn_b_def ex_prox_wide z append_objective_def ex_obj_wide Let_def finish_def
        ex_cfg_wide_fields)
qed

subsection \<open>Facts about failures of the preparation\<close>

text \<open>
  The weight enters the evaluator only in the value it returns, never in whether it returns.
\<close>

lemma evaluator_status_weight:
  "map_sum id (\<lambda>v. ()) (compute_X_and_objective_multi prox X Z uv r1 f c)
     = map_sum id (\<lambda>v. ()) (compute_X_and_objective_multi prox X Z uv r2 f c)"
  by (auto simp: compute_X_and_objective_multi_def objective_def Let_def
      split: sum.splits prod.splits)

lemma append_objective_unvalidated:
  "map_sum fst (\<lambda>st. (uv_hat st, Z_hat st))
       (append_objective E (cfg\<lparr>reg := r, solver_z := s, solver_d := d\<rparr>) X st)
     = map_sum fst (\<lambda>st. (uv_hat st, Z_hat st)) (append_objective E cfg X st)"
  using evaluator_status_weight[of "prox_uv E" X "Z_hat st" "uv_hat st" r True
      "uv_constraint cfg" "reg cfg"]
  by (auto simp: append_objective_def Let_def split: sum.splits)

lemma initialise_unvalidated:
  "map_sum fst (\<lambda>(st, b). (uv_hat st, Z_hat st, b))
       (initialise E (cfg\<lparr>reg := r, solver_z := s, solver_d := d\<rparr>) X)
     = map_sum fst (\<lambda>(st, b). (uv_hat st, Z_hat st, b)) (initialise E cfg X)"
proof -
  obtain t ch n where X: "dims3 X = (t, ch, n)" by (cases "dims3 X")
  let ?cfg = "cfg\<lparr>reg := r, solver_z := s, solver_d := d\<rparr>"
  have iu: "initial_uv g ?cfg ch = initial_uv g cfg ch" for g
    by (simp add: initial_uv_def split: option.splits)
  show ?thesis
  proof (cases "check_random_state E (random_state cfg)")
    case (Inl e) then show ?thesis by (simp add: initialise_def X)
  next
    case g: (Inr g)
    show ?thesis
    proof (cases "initial_uv g cfg ch")
      case (Inl e) then show ?thesis by (simp add: initialise_def X g iu)
    next
      case u0: (Inr uv0)
      show ?thesis
      proof (cases "prox_uv E uv0 (uv_constraint cfg) ch")
        case (Inl e) then show ?thesis by (simp add: initialise_def X g iu u0)
      next
        case (Inr p)
        obtain uv1 nrm where p: "p = (uv1, nrm)" by (cases p)
        note pr = Inr[unfolded p]
        show ?thesis
        proof (cases "randn_b g (n_atoms cfg * (int ch + n_times_atom cfg))")
          case (Inl e) then show ?thesis by (simp add: initialise_def X g iu u0 pr)
        next
          case b: (Inr b)
          show ?thesis
          proof (cases "np_zeros (n_atoms cfg) (int t) (int n - n_times_atom cfg + 1)")
            case (Inl e) then show ?thesis by (simp add: initialise_def X g iu u0 pr b)
          next
            case z: (Inr Z0)
            let ?st = "\<lparr>pobj = [], times_l = [], uv_hat = uv1, Z_hat = Z0, reg_cur = 0, events = []\<rparr>"
            show ?thesis
              using append_objective_unvalidated[where E = E and cfg = cfg and r = r and s = s and d = d and X = X and st = ?st]
              by (auto simp: initialise_def X g iu u0 pr b z split: sum.splits)
          qed
        qed
      qed
    qed
  qed
qed


text \<open>The preparation calls neither stage.\<close>

lemma append_objective_stages:
  "append_objective (E\<lparr>update_z_multi := f, func_d := h\<rparr>) cfg X st = append_objective E cfg X st"
  by (simp add: append_objective_def)

lemma initialise_stages:
  "initialise (E\<lparr>update_z_multi := f, func_d := h\<rparr>) cfg X = initialise E cfg X"
  by (auto simp: initialise_def append_objective_stages split: prod.splits sum.splits)

lemma learn_d_z_multi_unprepared:
  assumes "initialise E cfg X = Inl r"
  shows "learn_d_z_multi (E\<lparr>update_z_multi := f, func_d := h\<rparr>) cfg X = Inl r"
  by (simp add: learn_d_z_multi_def initialise_stages assms)

text \<open>A run of no iteration is the preparation followed by the refinement.\<close>

lemma learn_d_z_multi_zero_budget:
  assumes "n_iter cfg \<le> 0"
  shows "learn_d_z_multi E cfg X =
     (case initialise E cfg X of Inl r \<Rightarrow> Inl r | Inr (st0, b) \<Rightarrow> finish E X st0)"
  using assms by (simp add: learn_d_z_multi_def split: sum.splits prod.splits)

lemma finish_atoms_activations:
  assumes "uv_hat st = uv_hat st'" "Z_hat st = Z_hat st'"
  shows "map_sum fst (\<lambda>s. (uv_hat s, Z_hat s)) (finish E X st)
       = map_sum fst (\<lambda>s. (uv_hat s, Z_hat s)) (finish E X st')"
  using assms by (simp add: finish_def Let_def split: sum.splits)

lemma zero_budget_unvalidated:
  assumes "n_iter cfg \<le> 0"
  shows "map_sum fst (\<lambda>s. (uv_hat s, Z_hat s))
           (learn_d_z_multi E (cfg\<lparr>reg := r, solver_z := s, solver_d := d\<rparr>) X)
       = map_sum fst (\<lambda>s. (uv_hat s, Z_hat s)) (learn_d_z_multi E cfg X)"
proof -
  let ?cfg = "cfg\<lparr>reg := r, solver_z := s, solver_d := d\<rparr>"
  have n: "n_iter ?cfg \<le> 0" using assms by simp
  note u = initialise_unvalidated[where E = E and cfg = cfg and r = r and s = s and d = d and X = X]
  show ?thesis
  proof (cases "initialise E cfg X")
    case (Inl a)
    with u obtain a' where "initialise E ?cfg X = Inl a'" "fst a' = fst a"
      by (cases "initialise E ?cfg X") auto
    then show ?thesis
      by (simp add: learn_d_z_multi_zero_budget[OF n] learn_d_z_multi_zero_budget[OF assms] Inl)
  next
    case (Inr p)
    obtain st b where p: "p = (st, b)" by (cases p)
    from u Inr p obtain st' where i': "initialise E ?cfg X = Inr (st', b)"
      and e: "uv_hat st' = uv_hat st" "Z_hat st' = Z_hat st"
      by (cases "initialise E ?cfg X") auto
    show ?thesis
      using finish_atoms_activations[OF e, where E = E and X = X]
      by (simp add: learn_d_z_multi_zero_budget[OF n] learn_d_z_multi_zero_budget[OF assms]
          Inr p i')
  qed
qed

lemma ex_fail_fields:
  "check_random_state ex_env_seed sd = Inl ValueError"
  "check_random_state (ex_env Z uv) sd = Inr ex_rng"
  "uv_init ex_cfg_draw = None" "n_atoms ex_cfg_draw = - 1"
  "uv_init ex_cfg_neg = Some ex_uv0" "n_atoms ex_cfg_neg = - 1" "n_times_atom ex_cfg_neg = 1"
  "uv_constraint ex_cfg_neg = ''separate''"
  "uv_init ex_cfg_long = Some ex_uv0" "n_atoms ex_cfg_long = 1" "n_times_atom ex_cfg_long = 4"
  "uv_constraint ex_cfg_long = ''separate''"
  "uv_init ex_cfg_wide_bank = Some ex_uv_wide" "n_atoms ex_cfg_wide_bank = 1"
  "n_times_atom ex_cfg_wide_bank = 1" "uv_constraint ex_cfg_wide_bank = ''separate''"
  "reg ex_cfg_wide_bank = 1 / 4"
  by (simp_all add: ex_env_seed_def ex_env_def ex_cfg_draw_def ex_cfg_neg_def ex_cfg_long_def
      ex_cfg_wide_bank_def ex_cfg_def)

lemma ex_obj_wide_bank:
  "compute_X_and_objective_multi prox_uv_spec ex_X ex_Z0 ex_uv_wide r True ''separate''
     = Inl ValueError"
  by (simp add: ex_uv_wide_def ex_X_def ex_Z0_def arr_defs)

section \<open>The claims\<close>

subsection \<open>C1: how the objective of the trace is evaluated\<close>

text \<open>
  C1 (as amended). In every outer iteration that reaches the end of the loop body, the
  entry appended to the trace after the sparse-code update and the one appended after the
  dictionary update are the values of the evaluator in its default mode, feasible
  evaluation: the atom bank is projected and the activations are rescaled, on copies. Both
  use the full configured weight, whatever weight the sparse-code stage was given.
\<close>

theorem trace_entries_are_feasible_evaluations:
  assumes "iteration E cfg X b ii st = Inr (fl, st')" and "\<not> all_zero (Z_hat st')"
  shows "\<exists>a c. pobj st' = pobj st @ [a, c]
    \<and> update_z_multi E X (uv_hat st) (if ii = 1 then reg cfg else reg_cur st) (Z_hat st)
         (solver_z cfg) (solver_z_kwargs cfg) = Inr (Z_hat st')
    \<and> compute_X_and_objective_multi (prox_uv E) X (Z_hat st') (uv_hat st) (reg cfg) True
         (uv_constraint cfg) = Inr a
    \<and> compute_X_and_objective_multi (prox_uv E) X (Z_hat st') (uv_hat st') (reg cfg) True
         (uv_constraint cfg) = Inr c"
  using iteration_full[OF assms] by blast

theorem trace_entries_witness:
  "iteration (ex_env ex_Z ex_uv_big) ex_cfg ex_X [0, 0] 0 ex_st0 = Inr (Break, ex_st1 ex_uv_big 1 3)
   \<and> \<not> all_zero (Z_hat (ex_st1 ex_uv_big 1 3))
   \<and> (\<exists>a c. pobj (ex_st1 ex_uv_big 1 3) = pobj ex_st0 @ [a, c]
    \<and> update_z_multi (ex_env ex_Z ex_uv_big) ex_X (uv_hat ex_st0)
         (if (0::nat) = 1 then reg ex_cfg else reg_cur ex_st0) (Z_hat ex_st0)
         (solver_z ex_cfg) (solver_z_kwargs ex_cfg) = Inr (Z_hat (ex_st1 ex_uv_big 1 3))
    \<and> compute_X_and_objective_multi (prox_uv (ex_env ex_Z ex_uv_big)) ex_X
         (Z_hat (ex_st1 ex_uv_big 1 3)) (uv_hat ex_st0) (reg ex_cfg) True
         (uv_constraint ex_cfg) = Inr a
    \<and> compute_X_and_objective_multi (prox_uv (ex_env ex_Z ex_uv_big)) ex_X
         (Z_hat (ex_st1 ex_uv_big 1 3)) (uv_hat (ex_st1 ex_uv_big 1 3)) (reg ex_cfg) True
         (uv_constraint ex_cfg) = Inr c)"
proof -
  have nz: "\<not> all_zero (Z_hat (ex_st1 ex_uv_big 1 3))"
    by (simp add: ex_st1_fields ex_all_zero)
  show ?thesis
    by (intro conjI, rule ex_it0_big, rule nz,
        rule trace_entries_are_feasible_evaluations[OF ex_it0_big nz])
qed

text \<open>
  The dictionary stage of this run returns the atom \<open>(1, 2)\<close>, whose spatial part has norm
  1 and whose temporal part has norm 2. The entry appended after it is 3, the objective of the projected atom \<open>(1, 1)\<close> with the
  activations doubled; the raw objective of the same atoms and activations is \<open>5 / 2\<close>.
\<close>

theorem trace_entries_raw_counterexample:
  "iteration (ex_env ex_Z ex_uv_big) ex_cfg ex_X [0, 0] 0 ex_st0 = Inr (Break, ex_st1 ex_uv_big 1 3)
   \<and> last (pobj (ex_st1 ex_uv_big 1 3)) = 3
   \<and> compute_X_and_objective_multi (prox_uv (ex_env ex_Z ex_uv_big)) ex_X
        (Z_hat (ex_st1 ex_uv_big 1 3)) (uv_hat (ex_st1 ex_uv_big 1 3)) (reg ex_cfg) False
        (uv_constraint ex_cfg) = Inr (5 / 2)"
  by (simp add: ex_it0_big ex_st1_fields ex_env_fields ex_cfg_fields ex_obj_big_raw)

subsection \<open>C2: the lengths of the two traces\<close>

text \<open>
  C2. The objective trace and the time trace are meant to run in parallel, and they do on
  every run that does not leave the loop by the all-zero check (lemma \<open>trace_lengths\<close>). In
  this run the sparse-code stage returns all-zero activations in iteration 0: the driver has
  already appended the duration of the stage to the time trace when it leaves the loop, and
  has not appended an objective. It returns an objective trace of one entry and a time trace
  of two.
\<close>

theorem degenerate_run_traces_differ_in_length:
  "map_sum id pobj (learn_d_z_multi (ex_env ex_Z0 ex_uv) ex_cfg ex_X) = Inr [2]
   \<and> map_sum id times_l (learn_d_z_multi (ex_env ex_Z0 ex_uv) ex_cfg ex_X) = Inr [0, 1]"
  by (simp add: learn_d_z_multi_def ex_initialise[OF ex_cfg_fields(1-4)] ex_cfg_fields(5,7)
      eval_nat_numeral iteration_degenerate[OF ex_env_fields(2) ex_all_zero(1)] ex_finish
      ex_env_fields(4))

subsection \<open>C3: errors before the loop\<close>

text \<open>
  C3 (as amended). A failure of a step of the preparation is the failure of the driver,
  whatever the two stages \<open>f\<close> and \<open>h\<close> are, so that neither stage is called and no trace
  is returned. The steps, each reached when the ones before it have returned: the random
  state is rejected; the initial bank is to be drawn and the number of atoms or the width
  \<^verbatim>\<open>n_channels + n_times_atom\<close> is negative; the projector rejects the constraint mode or
  the bank; the length of the warm-start vector is negative; the valid length
  \<^verbatim>\<open>n_times - n_times_atom + 1\<close> is negative; the first evaluation of the objective raises.
  The driver does not examine the regularization weight or the solver names: what the
  preparation raises, and the atoms, activations and warm-start vector it prepares, are the
  same for every weight and every pair of solver names, and so are the exception or the
  atoms and activations of a run of no iteration.
\<close>

theorem preparation_errors_precede_the_loop:
  assumes "dims3 X = (n_trials, n_chan, n_times)"
  shows
  "(\<forall>e. check_random_state E (random_state cfg) = Inl e \<longrightarrow>
       learn_d_z_multi (E\<lparr>update_z_multi := f, func_d := h\<rparr>) cfg X = Inl (e, []))
   \<and> (\<forall>g. check_random_state E (random_state cfg) = Inr g
         \<and> uv_init cfg = None \<and> (n_atoms cfg < 0 \<or> int n_chan + n_times_atom cfg < 0) \<longrightarrow>
       learn_d_z_multi (E\<lparr>update_z_multi := f, func_d := h\<rparr>) cfg X = Inl (ValueError, []))
   \<and> (\<forall>g uv0 e. check_random_state E (random_state cfg) = Inr g
         \<and> initial_uv g cfg n_chan = Inr uv0
         \<and> prox_uv E uv0 (uv_constraint cfg) n_chan = Inl e \<longrightarrow>
       learn_d_z_multi (E\<lparr>update_z_multi := f, func_d := h\<rparr>) cfg X = Inl (e, []))
   \<and> (\<forall>g uv0 uv1 nrm. check_random_state E (random_state cfg) = Inr g
         \<and> initial_uv g cfg n_chan = Inr uv0
         \<and> prox_uv E uv0 (uv_constraint cfg) n_chan = Inr (uv1, nrm)
         \<and> n_atoms cfg * (int n_chan + n_times_atom cfg) < 0 \<longrightarrow>
       learn_d_z_multi (E\<lparr>update_z_multi := f, func_d := h\<rparr>) cfg X = Inl (ValueError, []))
   \<and> (\<forall>g uv0 uv1 nrm. check_random_state E (random_state cfg) = Inr g
         \<and> initial_uv g cfg n_chan = Inr uv0
         \<and> prox_uv E uv0 (uv_constraint cfg) n_chan = Inr (uv1, nrm)
         \<and> 0 \<le> n_atoms cfg * (int n_chan + n_times_atom cfg)
         \<and> int n_times - n_times_atom cfg + 1 < 0 \<longrightarrow>
       learn_d_z_multi (E\<lparr>update_z_multi := f, func_d := h\<rparr>) cfg X = Inl (ValueError, []))
   \<and> (\<forall>g uv0 uv1 nrm Z0 e. check_random_state E (random_state cfg) = Inr g
         \<and> initial_uv g cfg n_chan = Inr uv0
         \<and> prox_uv E uv0 (uv_constraint cfg) n_chan = Inr (uv1, nrm)
         \<and> 0 \<le> n_atoms cfg * (int n_chan + n_times_atom cfg)
         \<and> np_zeros (n_atoms cfg) (int n_trials) (int n_times - n_times_atom cfg + 1) = Inr Z0
         \<and> compute_X_and_objective_multi (prox_uv E) X Z0 uv1 (reg cfg) True (uv_constraint cfg)
             = Inl e \<longrightarrow>
       learn_d_z_multi (E\<lparr>update_z_multi := f, func_d := h\<rparr>) cfg X
         = Inl (e, [Evaluate True (reg cfg)]))
   \<and> (\<forall>r s d. map_sum fst (\<lambda>(st, b). (uv_hat st, Z_hat st, b))
                   (initialise E (cfg\<lparr>reg := r, solver_z := s, solver_d := d\<rparr>) X)
               = map_sum fst (\<lambda>(st, b). (uv_hat st, Z_hat st, b)) (initialise E cfg X))
   \<and> (\<forall>r s d. n_iter cfg \<le> 0 \<longrightarrow>
         map_sum fst (\<lambda>st. (uv_hat st, Z_hat st))
             (learn_d_z_multi E (cfg\<lparr>reg := r, solver_z := s, solver_d := d\<rparr>) X)
           = map_sum fst (\<lambda>st. (uv_hat st, Z_hat st)) (learn_d_z_multi E cfg X))"
proof (intro conjI allI impI)
  fix e assume "check_random_state E (random_state cfg) = Inl e"
  then have "initialise E cfg X = Inl (e, [])"
    by (simp add: initialise_def assms)
  then show "learn_d_z_multi (E\<lparr>update_z_multi := f, func_d := h\<rparr>) cfg X = Inl (e, [])"
    by (rule learn_d_z_multi_unprepared)
next
  fix g
  assume "check_random_state E (random_state cfg) = Inr g
         \<and> uv_init cfg = None \<and> (n_atoms cfg < 0 \<or> int n_chan + n_times_atom cfg < 0)"
  then have "initialise E cfg X = Inl (ValueError, [])"
    by (auto simp add: initialise_def assms initial_uv_def randn_uv_def)
  then show "learn_d_z_multi (E\<lparr>update_z_multi := f, func_d := h\<rparr>) cfg X
      = Inl (ValueError, [])"
    by (rule learn_d_z_multi_unprepared)
next
  fix g uv0 e
  assume "check_random_state E (random_state cfg) = Inr g
         \<and> initial_uv g cfg n_chan = Inr uv0
         \<and> prox_uv E uv0 (uv_constraint cfg) n_chan = Inl e"
  then have "initialise E cfg X = Inl (e, [])"
    by (simp add: initialise_def assms)
  then show "learn_d_z_multi (E\<lparr>update_z_multi := f, func_d := h\<rparr>) cfg X = Inl (e, [])"
    by (rule learn_d_z_multi_unprepared)
next
  fix g uv0 uv1 nrm
  assume "check_random_state E (random_state cfg) = Inr g
         \<and> initial_uv g cfg n_chan = Inr uv0
         \<and> prox_uv E uv0 (uv_constraint cfg) n_chan = Inr (uv1, nrm)
         \<and> n_atoms cfg * (int n_chan + n_times_atom cfg) < 0"
  then have "initialise E cfg X = Inl (ValueError, [])"
    by (simp add: initialise_def assms randn_b_def)
  then show "learn_d_z_multi (E\<lparr>update_z_multi := f, func_d := h\<rparr>) cfg X
      = Inl (ValueError, [])"
    by (rule learn_d_z_multi_unprepared)
next
  fix g uv0 uv1 nrm
  assume "check_random_state E (random_state cfg) = Inr g
         \<and> initial_uv g cfg n_chan = Inr uv0
         \<and> prox_uv E uv0 (uv_constraint cfg) n_chan = Inr (uv1, nrm)
         \<and> 0 \<le> n_atoms cfg * (int n_chan + n_times_atom cfg)
         \<and> int n_times - n_times_atom cfg + 1 < 0"
  then have "initialise E cfg X = Inl (ValueError, [])"
    by (simp add: initialise_def assms randn_b_def np_zeros_def)
  then show "learn_d_z_multi (E\<lparr>update_z_multi := f, func_d := h\<rparr>) cfg X
      = Inl (ValueError, [])"
    by (rule learn_d_z_multi_unprepared)
next
  fix g uv0 uv1 nrm Z0 e
  assume "check_random_state E (random_state cfg) = Inr g
         \<and> initial_uv g cfg n_chan = Inr uv0
         \<and> prox_uv E uv0 (uv_constraint cfg) n_chan = Inr (uv1, nrm)
         \<and> 0 \<le> n_atoms cfg * (int n_chan + n_times_atom cfg)
         \<and> np_zeros (n_atoms cfg) (int n_trials) (int n_times - n_times_atom cfg + 1) = Inr Z0
         \<and> compute_X_and_objective_multi (prox_uv E) X Z0 uv1 (reg cfg) True (uv_constraint cfg)
             = Inl e"
  then have "initialise E cfg X = Inl (e, [Evaluate True (reg cfg)])"
    by (simp add: initialise_def assms randn_b_def append_objective_def)
  then show "learn_d_z_multi (E\<lparr>update_z_multi := f, func_d := h\<rparr>) cfg X
      = Inl (e, [Evaluate True (reg cfg)])"
    by (rule learn_d_z_multi_unprepared)
next
  fix r s d
  show "map_sum fst (\<lambda>(st, b). (uv_hat st, Z_hat st, b))
                   (initialise E (cfg\<lparr>reg := r, solver_z := s, solver_d := d\<rparr>) X)
               = map_sum fst (\<lambda>(st, b). (uv_hat st, Z_hat st, b)) (initialise E cfg X)"
    by (rule initialise_unvalidated)
next
  fix r s d assume "n_iter cfg \<le> 0"
  then show "map_sum fst (\<lambda>st. (uv_hat st, Z_hat st))
             (learn_d_z_multi E (cfg\<lparr>reg := r, solver_z := s, solver_d := d\<rparr>) X)
           = map_sum fst (\<lambda>st. (uv_hat st, Z_hat st)) (learn_d_z_multi E cfg X)"
    by (rule zero_budget_unvalidated)
qed

text \<open>
  One run for each step. The stages of these runs raise an exception of their own whenever
  they are called; the exception of each run is the one of the preparation. In order: a
  generator that rejects the seed, a bank to be drawn for \<open>- 1\<close> atoms, an unknown
  constraint mode, \<open>- 1\<close> atoms with a given bank, atoms of four samples for signals of
  two, and a given bank one column too wide, whose reconstruction has three samples; then
  a negative weight and unknown solver names, in the preparation and in a run of no
  iteration.
\<close>

theorem preparation_errors_witness:
  "learn_d_z_multi (ex_env_seed\<lparr>update_z_multi := ex_z_raises, func_d := ex_d_raises\<rparr>)
       ex_cfg ex_X = Inl (ValueError, [])
   \<and> learn_d_z_multi ((ex_env ex_Z ex_uv)\<lparr>update_z_multi := ex_z_raises, func_d := ex_d_raises\<rparr>)
       ex_cfg_draw ex_X = Inl (ValueError, [])
   \<and> learn_d_z_multi ((ex_env ex_Z ex_uv)\<lparr>update_z_multi := ex_z_raises, func_d := ex_d_raises\<rparr>)
       ex_cfg_mode ex_X = Inl (ValueError, [])
   \<and> learn_d_z_multi ((ex_env ex_Z ex_uv)\<lparr>update_z_multi := ex_z_raises, func_d := ex_d_raises\<rparr>)
       ex_cfg_neg ex_X = Inl (ValueError, [])
   \<and> learn_d_z_multi ((ex_env ex_Z ex_uv)\<lparr>update_z_multi := ex_z_raises, func_d := ex_d_raises\<rparr>)
       ex_cfg_long ex_X = Inl (ValueError, [])
   \<and> learn_d_z_multi ((ex_env ex_Z ex_uv)\<lparr>update_z_multi := ex_z_raises, func_d := ex_d_raises\<rparr>)
       ex_cfg_wide_bank ex_X = Inl (ValueError, [Evaluate True (1 / 4)])
   \<and> map_sum fst (\<lambda>(st, b). (uv_hat st, Z_hat st, b))
        (initialise (ex_env ex_Z ex_uv)
           (ex_cfg\<lparr>reg := - 1, solver_z := ''no_such_solver'', solver_d := ''no_such_solver''\<rparr>) ex_X)
       = map_sum fst (\<lambda>(st, b). (uv_hat st, Z_hat st, b)) (initialise (ex_env ex_Z ex_uv) ex_cfg ex_X)
   \<and> map_sum fst (\<lambda>st. (uv_hat st, Z_hat st))
        (learn_d_z_multi (ex_env ex_Z ex_uv)
           (ex_cfg_zero\<lparr>reg := - 1, solver_z := ''no_such_solver'', solver_d := ''no_such_solver''\<rparr>) ex_X)
       = map_sum fst (\<lambda>st. (uv_hat st, Z_hat st)) (learn_d_z_multi (ex_env ex_Z ex_uv) ex_cfg_zero ex_X)"
proof -
  let ?E = "ex_env ex_Z ex_uv"
  note th = preparation_errors_precede_the_loop[where X = ex_X and f = ex_z_raises
      and h = ex_d_raises, OF ex_dims]
  have seed: "check_random_state ex_env_seed (random_state ex_cfg) = Inl ValueError"
    by (rule ex_fail_fields)
  have w1: "learn_d_z_multi (ex_env_seed\<lparr>update_z_multi := ex_z_raises, func_d := ex_d_raises\<rparr>)
       ex_cfg ex_X = Inl (ValueError, [])"
    using th[where E = ex_env_seed and cfg = ex_cfg, THEN conjunct1] seed by blast
  have g: "check_random_state ?E (random_state c) = Inr ex_rng" for c
    by (rule ex_fail_fields)
  have draw: "uv_init ex_cfg_draw = None \<and> (n_atoms ex_cfg_draw < 0
      \<or> int 1 + n_times_atom ex_cfg_draw < 0)"
    by (simp add: ex_fail_fields)
  have w2: "learn_d_z_multi (?E\<lparr>update_z_multi := ex_z_raises, func_d := ex_d_raises\<rparr>)
       ex_cfg_draw ex_X = Inl (ValueError, [])"
    using th[where E = ?E and cfg = ex_cfg_draw, THEN conjunct2, THEN conjunct1] g[of ex_cfg_draw] draw by blast
  have mode: "initial_uv ex_rng ex_cfg_mode 1 = Inr ex_uv0"
    "prox_uv ?E ex_uv0 (uv_constraint ex_cfg_mode) 1 = Inl ValueError"
    by (simp_all add: initial_uv_def ex_cfg_mode_fields ex_env_fields ex_prox_mode)
  have w3: "learn_d_z_multi (?E\<lparr>update_z_multi := ex_z_raises, func_d := ex_d_raises\<rparr>)
       ex_cfg_mode ex_X = Inl (ValueError, [])"
    using th[where E = ?E and cfg = ex_cfg_mode, THEN conjunct2, THEN conjunct2, THEN conjunct1] g[of ex_cfg_mode] mode by blast
  have neg: "initial_uv ex_rng ex_cfg_neg 1 = Inr ex_uv0"
    "prox_uv ?E ex_uv0 (uv_constraint ex_cfg_neg) 1 = Inr (ex_uv0, [1])"
    "n_atoms ex_cfg_neg * (int 1 + n_times_atom ex_cfg_neg) < 0"
    by (simp_all add: initial_uv_def ex_fail_fields ex_env_fields ex_prox_uv0)
  have w4: "learn_d_z_multi (?E\<lparr>update_z_multi := ex_z_raises, func_d := ex_d_raises\<rparr>)
       ex_cfg_neg ex_X = Inl (ValueError, [])"
    using th[where E = ?E and cfg = ex_cfg_neg, THEN conjunct2, THEN conjunct2, THEN conjunct2, THEN conjunct1] g[of ex_cfg_neg] neg by blast
  have long: "initial_uv ex_rng ex_cfg_long 1 = Inr ex_uv0"
    "prox_uv ?E ex_uv0 (uv_constraint ex_cfg_long) 1 = Inr (ex_uv0, [1])"
    "0 \<le> n_atoms ex_cfg_long * (int 1 + n_times_atom ex_cfg_long)"
    "int 2 - n_times_atom ex_cfg_long + 1 < 0"
    by (simp_all add: initial_uv_def ex_fail_fields ex_env_fields ex_prox_uv0)
  have w5: "learn_d_z_multi (?E\<lparr>update_z_multi := ex_z_raises, func_d := ex_d_raises\<rparr>)
       ex_cfg_long ex_X = Inl (ValueError, [])"
    using th[where E = ?E and cfg = ex_cfg_long, THEN conjunct2, THEN conjunct2, THEN conjunct2, THEN conjunct2, THEN conjunct1] g[of ex_cfg_long] long by blast
  have wide: "initial_uv ex_rng ex_cfg_wide_bank 1 = Inr ex_uv_wide"
    "prox_uv ?E ex_uv_wide (uv_constraint ex_cfg_wide_bank) 1 = Inr (ex_uv_wide, [1])"
    "0 \<le> n_atoms ex_cfg_wide_bank * (int 1 + n_times_atom ex_cfg_wide_bank)"
    "np_zeros (n_atoms ex_cfg_wide_bank) (int 1) (int 2 - n_times_atom ex_cfg_wide_bank + 1)
       = Inr ex_Z0"
    "compute_X_and_objective_multi (prox_uv ?E) ex_X ex_Z0 ex_uv_wide (reg ex_cfg_wide_bank) True
       (uv_constraint ex_cfg_wide_bank) = Inl ValueError"
    by (simp_all add: initial_uv_def ex_fail_fields ex_env_fields ex_prox_wide ex_zeros
        ex_obj_wide_bank)
  have "learn_d_z_multi (?E\<lparr>update_z_multi := ex_z_raises, func_d := ex_d_raises\<rparr>)
       ex_cfg_wide_bank ex_X = Inl (ValueError, [Evaluate True (reg ex_cfg_wide_bank)])"
    using th[where E = ?E and cfg = ex_cfg_wide_bank, THEN conjunct2, THEN conjunct2, THEN conjunct2, THEN conjunct2, THEN conjunct2, THEN conjunct1] g[of ex_cfg_wide_bank] wide by blast
  then have w6: "learn_d_z_multi (?E\<lparr>update_z_multi := ex_z_raises, func_d := ex_d_raises\<rparr>)
       ex_cfg_wide_bank ex_X = Inl (ValueError, [Evaluate True (1 / 4)])"
    by (simp add: ex_fail_fields)
  have w7: "map_sum fst (\<lambda>(st, b). (uv_hat st, Z_hat st, b))
        (initialise ?E
           (ex_cfg\<lparr>reg := - 1, solver_z := ''no_such_solver'', solver_d := ''no_such_solver''\<rparr>) ex_X)
       = map_sum fst (\<lambda>(st, b). (uv_hat st, Z_hat st, b)) (initialise ?E ex_cfg ex_X)"
    using th[where E = ?E and cfg = ex_cfg, THEN conjunct2, THEN conjunct2, THEN conjunct2, THEN conjunct2, THEN conjunct2, THEN conjunct2, THEN conjunct1] by blast
  have z: "n_iter ex_cfg_zero \<le> 0" by (simp add: ex_cfg_zero_fields)
  have w8: "map_sum fst (\<lambda>st. (uv_hat st, Z_hat st))
        (learn_d_z_multi ?E
           (ex_cfg_zero\<lparr>reg := - 1, solver_z := ''no_such_solver'', solver_d := ''no_such_solver''\<rparr>) ex_X)
       = map_sum fst (\<lambda>st. (uv_hat st, Z_hat st)) (learn_d_z_multi ?E ex_cfg_zero ex_X)"
    using th[where E = ?E and cfg = ex_cfg_zero, THEN conjunct2, THEN conjunct2, THEN conjunct2, THEN conjunct2, THEN conjunct2, THEN conjunct2, THEN conjunct2] z by blast
  from w1 w2 w3 w4 w5 w6 w7 w8 show ?thesis by blast
qed

text \<open>
  The weight of this run is negative and its sparse-code solver has a name no solver has;
  the budget is zero. The driver returns.
\<close>

theorem unchecked_configuration_counterexample:
  "reg ex_cfg_bad = - 1 \<and> solver_z ex_cfg_bad = ''no_such_solver''
   \<and> learn_d_z_multi (ex_env ex_Z ex_uv) ex_cfg_bad ex_X =
       Inr \<lparr>pobj = [2], times_l = [0], uv_hat = ex_uv0, Z_hat = ex_Z0, reg_cur = - 1 / 100,
            events = [Evaluate True (- 1), LeastSquares]\<rparr>"
  by (simp add: ex_cfg_bad_fields learn_d_z_multi_def ex_initialise[OF ex_cfg_bad_fields(1-4)]
      ex_finish)

subsection \<open>C4: the target check\<close>

text \<open>
  C4 (as amended). When a target is configured, an iteration that reaches the end of the
  loop body leaves the loop if the most recent entry of the trace is strictly below the
  target; an entry equal to the target does not stop the loop unless the convergence check
  does.
\<close>

theorem target_check_is_strict:
  assumes "iteration E cfg X b ii st = Inr (fl, st')" and "\<not> all_zero (Z_hat st')"
    and "stopping_pobj cfg = Some t"
  shows "\<exists>a c. pobj st' = pobj st @ [a, c]
    \<and> (c < t \<longrightarrow> fl = Break)
    \<and> (\<not> a - c < eps cfg \<and> t \<le> c \<longrightarrow> fl = Continue)"
proof -
  from iteration_full[OF assms(1,2)] obtain a c where
    p: "pobj st' = pobj st @ [a, c]" and fl: "fl = stopping_rules cfg (pobj st @ [a, c])"
    by blast
  have "(c < t \<longrightarrow> fl = Break) \<and> (\<not> a - c < eps cfg \<and> t \<le> c \<longrightarrow> fl = Continue)"
    unfolding fl stopping_rules_last_two by (simp add: assms(3))
  with p show ?thesis by blast
qed

theorem target_check_witness:
  "iteration (ex_env ex_Z ex_uv) ex_cfg_target ex_X [0, 0] 0 ex_st0
     = Inr (Continue, ex_st1 ex_uv 1 (1 / 2))
   \<and> \<not> all_zero (Z_hat (ex_st1 ex_uv 1 (1 / 2)))
   \<and> stopping_pobj ex_cfg_target = Some (1 / 2)
   \<and> (\<exists>a c. pobj (ex_st1 ex_uv 1 (1 / 2)) = pobj ex_st0 @ [a, c]
        \<and> (c < 1 / 2 \<longrightarrow> Continue = Break)
        \<and> (\<not> a - c < eps ex_cfg_target \<and> 1 / 2 \<le> c \<longrightarrow> Continue = Continue))"
proof -
  have nz: "\<not> all_zero (Z_hat (ex_st1 ex_uv 1 (1 / 2)))"
    by (simp add: ex_st1_fields ex_all_zero)
  show ?thesis
    by (intro conjI, rule ex_it0_target, rule nz, rule ex_cfg_target_fields(9),
        rule target_check_is_strict[OF ex_it0_target nz ex_cfg_target_fields(9)])
qed

text \<open>
  The target is \<open>1 / 2\<close>. After iteration 0 the trace is \<open>[2, 1, 1 / 2]\<close>: its most recent
  entry equals the target, and the driver goes on to iteration 1.
\<close>

theorem target_check_equality_counterexample:
  "stopping_pobj ex_cfg_target = Some (1 / 2)
   \<and> iteration (ex_env ex_Z ex_uv) ex_cfg_target ex_X [0, 0] 0 ex_st0
       = Inr (Continue, ex_st1 ex_uv 1 (1 / 2))
   \<and> last (pobj (ex_st1 ex_uv 1 (1 / 2))) = 1 / 2
   \<and> map_sum id pobj (learn_d_z_multi (ex_env ex_Z ex_uv) ex_cfg_target ex_X)
       = Inr [2, 1, 1 / 2, 1 / 2, 1 / 2]"
  using ex_run_pobj[OF ex_cfg_target_fields(1-8) disjI2[OF ex_cfg_target_fields(9)]]
  by (simp add: ex_it0_target ex_cfg_target_fields(9) ex_st1_fields)

subsection \<open>C5: the warm-up of the regularization weight\<close>

text \<open>
  C5. Let iteration \<open>k\<close> of the loop of a run start, in state \<open>st\<close>. The driver runs the
  body of the loop from \<open>st\<close>, and the body calls the sparse-code stage with the atoms and
  activations of \<open>st\<close> and with the configured weight divided by 100 when \<open>k\<close> is 0, the
  configured weight when \<open>k\<close> is 1 or more: what the stage raises there, the iteration and
  the driver raise; what it returns there are the activations of the iteration; and a stage
  that differs at any other weight or argument gives the same iteration.
\<close>

theorem sparse_code_stage_weight:
  assumes "initialise E cfg X = Inr (st0, b)"
    and "loop_state E cfg X b st0 k = Some st"
    and "k < nat (n_iter cfg)"
  shows "learn_d_z_multi E cfg X =
           (case outer_loop E cfg X b (k # [Suc k..<nat (n_iter cfg)]) st of
              Inl e \<Rightarrow> Inl e
            | Inr s \<Rightarrow> finish E X s)
    \<and> (\<forall>e. update_z_multi E X (uv_hat st) (warmup_weight cfg k) (Z_hat st) (solver_z cfg)
              (solver_z_kwargs cfg) = Inl e \<longrightarrow>
          iteration E cfg X b k st = Inl (e, events st @ [SparseCode k (warmup_weight cfg k)])
          \<and> learn_d_z_multi E cfg X = Inl (e, events st @ [SparseCode k (warmup_weight cfg k)]))
    \<and> (\<forall>Z fl st'. update_z_multi E X (uv_hat st) (warmup_weight cfg k) (Z_hat st) (solver_z cfg)
              (solver_z_kwargs cfg) = Inr Z
          \<and> iteration E cfg X b k st = Inr (fl, st') \<longrightarrow> Z_hat st' = Z)
    \<and> (\<forall>f. f X (uv_hat st) (warmup_weight cfg k) (Z_hat st) (solver_z cfg) (solver_z_kwargs cfg)
            = update_z_multi E X (uv_hat st) (warmup_weight cfg k) (Z_hat st) (solver_z cfg)
                (solver_z_kwargs cfg) \<longrightarrow>
          iteration (E\<lparr>update_z_multi := f\<rparr>) cfg X b k st = iteration E cfg X b k st)"
proof -
  from initialise_Inr[OF assms(1)] have "reg_cur st0 = reg cfg / 100" by blast
  from loop_state_reg_cur[OF assms(2) this]
  have w: "(if k = 1 then reg cfg else reg_cur st) = warmup_weight cfg k"
    by (auto simp: warmup_weight_def)
  have upt: "[k..<nat (n_iter cfg)] = k # [Suc k..<nat (n_iter cfg)]"
    using assms(3) by (simp add: upt_conv_Cons)
  have run: "learn_d_z_multi E cfg X =
           (case outer_loop E cfg X b (k # [Suc k..<nat (n_iter cfg)]) st of
              Inl e \<Rightarrow> Inl e
            | Inr s \<Rightarrow> finish E X s)"
    using outer_loop_from_loop_state[OF assms(2), of "nat (n_iter cfg)"] assms(1,3)
    by (simp add: learn_d_z_multi_def upt)
  have raises: "iteration E cfg X b k st = Inl (e, events st @ [SparseCode k (warmup_weight cfg k)])
      \<and> learn_d_z_multi E cfg X = Inl (e, events st @ [SparseCode k (warmup_weight cfg k)])"
    if "update_z_multi E X (uv_hat st) (warmup_weight cfg k) (Z_hat st) (solver_z cfg)
              (solver_z_kwargs cfg) = Inl e" for e
  proof -
    from iteration_stage_raises[of E X st k cfg e b] that
    have "iteration E cfg X b k st = Inl (e, events st @ [SparseCode k (warmup_weight cfg k)])"
      unfolding w by simp
    then show ?thesis by (simp add: run)
  qed
  have returns: "Z_hat st' = Z"
    if "update_z_multi E X (uv_hat st) (warmup_weight cfg k) (Z_hat st) (solver_z cfg)
              (solver_z_kwargs cfg) = Inr Z \<and> iteration E cfg X b k st = Inr (fl, st')"
    for Z fl st'
    using iteration_stage_returns[of E X st k cfg Z b fl st'] that unfolding w by simp
  have only: "iteration (E\<lparr>update_z_multi := f\<rparr>) cfg X b k st = iteration E cfg X b k st"
    if "f X (uv_hat st) (warmup_weight cfg k) (Z_hat st) (solver_z cfg) (solver_z_kwargs cfg)
            = update_z_multi E X (uv_hat st) (warmup_weight cfg k) (Z_hat st) (solver_z cfg)
                (solver_z_kwargs cfg)" for f
    using iteration_stage_cong[of f X st k cfg E b] that unfolding w by simp
  from run raises returns only show ?thesis by blast
qed

text \<open>
  Iteration 1 of the example run starts in the state iteration 0 left. A stage that
  accepts no weight but the full one, \<open>1 / 4\<close>, gives the same iteration.
\<close>

theorem sparse_code_stage_weight_witness:
  "initialise (ex_env ex_Z ex_uv) ex_cfg ex_X = Inr (ex_st0, [0, 0])
   \<and> loop_state (ex_env ex_Z ex_uv) ex_cfg ex_X [0, 0] ex_st0 1 = Some (ex_st1 ex_uv 1 (1 / 2))
   \<and> (1::nat) < nat (n_iter ex_cfg)
   \<and> warmup_weight ex_cfg 0 = 1 / 400 \<and> warmup_weight ex_cfg 1 = 1 / 4
   \<and> learn_d_z_multi (ex_env ex_Z ex_uv) ex_cfg ex_X =
        (case outer_loop (ex_env ex_Z ex_uv) ex_cfg ex_X [0, 0] (1 # [Suc 1..<nat (n_iter ex_cfg)])
                (ex_st1 ex_uv 1 (1 / 2)) of
           Inl e \<Rightarrow> Inl e
         | Inr s \<Rightarrow> finish (ex_env ex_Z ex_uv) ex_X s)
   \<and> iteration ((ex_env ex_Z ex_uv)\<lparr>update_z_multi := ex_stage_quarter\<rparr>) ex_cfg ex_X [0, 0] 1
        (ex_st1 ex_uv 1 (1 / 2))
      = iteration (ex_env ex_Z ex_uv) ex_cfg ex_X [0, 0] 1 (ex_st1 ex_uv 1 (1 / 2))"
proof -
  note th = sparse_code_stage_weight[OF ex_initialise_st0 ex_loop_state1 ex_budget]
  have w: "warmup_weight ex_cfg 0 = 1 / 400" "warmup_weight ex_cfg 1 = 1 / 4"
    by (simp_all add: warmup_weight_def ex_cfg_fields)
  have only: "\<forall>f. f ex_X (uv_hat (ex_st1 ex_uv 1 (1 / 2))) (warmup_weight ex_cfg 1)
            (Z_hat (ex_st1 ex_uv 1 (1 / 2))) (solver_z ex_cfg) (solver_z_kwargs ex_cfg)
          = update_z_multi (ex_env ex_Z ex_uv) ex_X (uv_hat (ex_st1 ex_uv 1 (1 / 2)))
              (warmup_weight ex_cfg 1) (Z_hat (ex_st1 ex_uv 1 (1 / 2))) (solver_z ex_cfg)
              (solver_z_kwargs ex_cfg) \<longrightarrow>
          iteration ((ex_env ex_Z ex_uv)\<lparr>update_z_multi := f\<rparr>) ex_cfg ex_X [0, 0] 1
             (ex_st1 ex_uv 1 (1 / 2))
           = iteration (ex_env ex_Z ex_uv) ex_cfg ex_X [0, 0] 1 (ex_st1 ex_uv 1 (1 / 2))"
    by (rule conjunct2[OF conjunct2[OF conjunct2[OF th]]])
  show ?thesis
    by (intro conjI, rule ex_initialise_st0, rule ex_loop_state1, rule ex_budget, rule w(1),
        rule w(2), rule conjunct1[OF th], rule mp[OF spec[OF only, of ex_stage_quarter] ex_stage_agrees])
qed

subsection \<open>C6: all activations zero\<close>

text \<open>
  C6. If the sparse-code stage of an iteration returns activations that are all zero, the
  driver warns, calls neither the evaluator nor the dictionary stage in that iteration,
  leaves the loop whatever iterations remain, and returns: the objective trace and the atom
  bank are those it had, the time trace has the duration of the sparse-code stage appended,
  and the activations are the refinement of the all-zero activations (when the refinement
  itself returns).
\<close>

theorem degenerate_activations_end_the_run:
  assumes "update_z_multi E X (uv_hat st) (if ii = 1 then reg cfg else reg_cur st) (Z_hat st)
             (solver_z cfg) (solver_z_kwargs cfg) = Inr Z"
    and "all_zero Z"
    and "support_least_square E X (uv_hat st) Z = Inr Z'"
  shows "\<exists>st1 st2. outer_loop E cfg X b (ii # iis) st = Inr st1
    \<and> finish E X st1 = Inr st2
    \<and> pobj st2 = pobj st \<and> uv_hat st2 = uv_hat st \<and> Z_hat st2 = Z'
    \<and> times_l st2 = times_l st @ [elapsed E (length (times_l st))]
    \<and> events st2 = events st @
         [SparseCode ii (if ii = 1 then reg cfg else reg_cur st), Warning, LeastSquares]"
  using assms(3)
  by (simp add: iteration_degenerate[OF assms(1,2)] finish_def Let_def)

theorem degenerate_activations_witness:
  "update_z_multi (ex_env ex_Z0 ex_uv) ex_X (uv_hat ex_st0)
      (if (0::nat) = 1 then reg ex_cfg else reg_cur ex_st0) (Z_hat ex_st0)
      (solver_z ex_cfg) (solver_z_kwargs ex_cfg) = Inr ex_Z0
   \<and> all_zero ex_Z0
   \<and> support_least_square (ex_env ex_Z0 ex_uv) ex_X (uv_hat ex_st0) ex_Z0 = Inr ex_Z0
   \<and> (\<exists>st1 st2. outer_loop (ex_env ex_Z0 ex_uv) ex_cfg ex_X [0, 0] [0, 1] ex_st0 = Inr st1
    \<and> finish (ex_env ex_Z0 ex_uv) ex_X st1 = Inr st2
    \<and> pobj st2 = pobj ex_st0 \<and> uv_hat st2 = uv_hat ex_st0 \<and> Z_hat st2 = ex_Z0
    \<and> times_l st2 = times_l ex_st0 @ [elapsed (ex_env ex_Z0 ex_uv) (length (times_l ex_st0))]
    \<and> events st2 = events ex_st0 @
         [SparseCode 0 (if (0::nat) = 1 then reg ex_cfg else reg_cur ex_st0), Warning, LeastSquares])"
  by (intro conjI, rule ex_env_fields(2), rule ex_all_zero(1), rule ex_env_fields(3),
      rule degenerate_activations_end_the_run[OF ex_env_fields(2) ex_all_zero(1) ex_env_fields(3)])

subsection \<open>C7: the convergence check\<close>

text \<open>
  C7. In an iteration that reaches the end of the loop body, the two entries appended to the
  objective trace are the objective after the sparse-code update (new activations, old
  atoms) and the objective after the dictionary update (new activations, new atoms). The
  loop is left when the first minus the second is strictly below \<^verbatim>\<open>eps\<close>; beyond that it is
  left only by the target check. The entry before the iteration plays no part.
\<close>

theorem convergence_check_on_last_two_entries:
  assumes "iteration E cfg X b ii st = Inr (fl, st')" and "\<not> all_zero (Z_hat st')"
  shows "\<exists>a c. pobj st' = pobj st @ [a, c]
    \<and> compute_X_and_objective_multi (prox_uv E) X (Z_hat st') (uv_hat st) (reg cfg) True
         (uv_constraint cfg) = Inr a
    \<and> compute_X_and_objective_multi (prox_uv E) X (Z_hat st') (uv_hat st') (reg cfg) True
         (uv_constraint cfg) = Inr c
    \<and> (a - c < eps cfg \<longrightarrow> fl = Break)
    \<and> (fl = Break \<longleftrightarrow> a - c < eps cfg \<or> (\<exists>t. stopping_pobj cfg = Some t \<and> c < t))"
proof -
  from iteration_full[OF assms] obtain Z a uv c where
    a: "compute_X_and_objective_multi (prox_uv E) X Z (uv_hat st) (reg cfg) True (uv_constraint cfg) = Inr a"
    and c: "compute_X_and_objective_multi (prox_uv E) X Z uv (reg cfg) True (uv_constraint cfg) = Inr c"
    and p: "pobj st' = pobj st @ [a, c]" and Z: "Z_hat st' = Z" and uv: "uv_hat st' = uv"
    and fl: "fl = stopping_rules cfg (pobj st @ [a, c])"
    by blast
  have "(a - c < eps cfg \<longrightarrow> fl = Break)
      \<and> (fl = Break \<longleftrightarrow> a - c < eps cfg \<or> (\<exists>t. stopping_pobj cfg = Some t \<and> c < t))"
    unfolding fl stopping_rules_last_two by (simp split: option.splits)
  with a c p Z uv show ?thesis by blast
qed

theorem convergence_check_witness:
  "iteration (ex_env ex_Z ex_uv) ex_cfg ex_X [0, 0] 0 ex_st0 = Inr (Continue, ex_st1 ex_uv 1 (1 / 2))
   \<and> \<not> all_zero (Z_hat (ex_st1 ex_uv 1 (1 / 2)))
   \<and> (\<exists>a c. pobj (ex_st1 ex_uv 1 (1 / 2)) = pobj ex_st0 @ [a, c]
    \<and> compute_X_and_objective_multi (prox_uv (ex_env ex_Z ex_uv)) ex_X (Z_hat (ex_st1 ex_uv 1 (1 / 2)))
         (uv_hat ex_st0) (reg ex_cfg) True (uv_constraint ex_cfg) = Inr a
    \<and> compute_X_and_objective_multi (prox_uv (ex_env ex_Z ex_uv)) ex_X (Z_hat (ex_st1 ex_uv 1 (1 / 2)))
         (uv_hat (ex_st1 ex_uv 1 (1 / 2))) (reg ex_cfg) True (uv_constraint ex_cfg) = Inr c
    \<and> (a - c < eps ex_cfg \<longrightarrow> Continue = Break)
    \<and> (Continue = Break \<longleftrightarrow> a - c < eps ex_cfg \<or> (\<exists>t. stopping_pobj ex_cfg = Some t \<and> c < t)))"
proof -
  have nz: "\<not> all_zero (Z_hat (ex_st1 ex_uv 1 (1 / 2)))"
    by (simp add: ex_st1_fields ex_all_zero)
  show ?thesis
    by (intro conjI, rule ex_it0, rule nz,
        rule convergence_check_on_last_two_entries[OF ex_it0 nz])
qed

subsection \<open>C8: the evaluator leaves the arrays of its caller alone\<close>

text \<open>
  C8. When the evaluator is called with feasible evaluation, every array of the store is
  after the call what it was before, whether the evaluator returns or raises and whether
  the projector works in place or not: the atom bank and the activations of the caller in
  particular. The projection and the rescaling write to the copies, which are new arrays.
\<close>

theorem evaluator_keeps_callers_arrays:
  assumes "compute_X_and_objective_multi_store prox in_place X_ref Z_ref uv_ref w True c h = (r, h')"
    and "Z_ref < length (arrs3 h)" and "uv_ref < length (arrs2 h)"
  shows "arrs3 h' ! Z_ref = arrs3 h ! Z_ref \<and> arrs2 h' ! uv_ref = arrs2 h ! uv_ref
    \<and> take (length (arrs3 h)) (arrs3 h') = arrs3 h
    \<and> take (length (arrs2 h)) (arrs2 h') = arrs2 h"
proof -
  from evaluator_store_prefix[of h prox in_place X_ref Z_ref uv_ref w True c] assms(1)
  have p3: "take (length (arrs3 h)) (arrs3 h') = arrs3 h"
    and p2: "take (length (arrs2 h)) (arrs2 h') = arrs2 h" by simp_all
  have "arrs3 h' ! Z_ref = take (length (arrs3 h)) (arrs3 h') ! Z_ref"
    using assms(2) by simp
  moreover have "arrs2 h' ! uv_ref = take (length (arrs2 h)) (arrs2 h') ! uv_ref"
    using assms(3) by simp
  ultimately show ?thesis using p3 p2 by simp
qed

theorem evaluator_keeps_callers_arrays_witness:
  "compute_X_and_objective_multi_store prox_uv_spec True 0 1 0 (1 / 4) True ''separate'' ex_store
     = (Inr 3, \<lparr>arrs3 = [ex_X, ex_Z, \<lparr>dims3 = (1, 1, 2), vals3 = [[[4, 0]]]\<rparr>],
                arrs2 = [ex_uv_big, ex_uv]\<rparr>)
   \<and> (1::nat) < length (arrs3 ex_store) \<and> (0::nat) < length (arrs2 ex_store)
   \<and> arrs3 \<lparr>arrs3 = [ex_X, ex_Z, \<lparr>dims3 = (1, 1, 2), vals3 = [[[4, 0]]]\<rparr>],
             arrs2 = [ex_uv_big, ex_uv]\<rparr> ! 1 = arrs3 ex_store ! 1
   \<and> arrs2 \<lparr>arrs3 = [ex_X, ex_Z, \<lparr>dims3 = (1, 1, 2), vals3 = [[[4, 0]]]\<rparr>],
             arrs2 = [ex_uv_big, ex_uv]\<rparr> ! 0 = arrs2 ex_store ! 0
   \<and> take (length (arrs3 ex_store))
        (arrs3 \<lparr>arrs3 = [ex_X, ex_Z, \<lparr>dims3 = (1, 1, 2), vals3 = [[[4, 0]]]\<rparr>],
                arrs2 = [ex_uv_big, ex_uv]\<rparr>) = arrs3 ex_store
   \<and> take (length (arrs2 ex_store))
        (arrs2 \<lparr>arrs3 = [ex_X, ex_Z, \<lparr>dims3 = (1, 1, 2), vals3 = [[[4, 0]]]\<rparr>],
                arrs2 = [ex_uv_big, ex_uv]\<rparr>) = arrs2 ex_store"
proof -
  have l3: "(1::nat) < length (arrs3 ex_store)" by (simp add: ex_store_def)
  have l2: "(0::nat) < length (arrs2 ex_store)" by (simp add: ex_store_def)
  show ?thesis
    by (intro conjI, rule ex_store_eval, rule l3, rule l2,
        (rule evaluator_keeps_callers_arrays[OF ex_store_eval l3 l2,
           THEN conjunct1],
         rule evaluator_keeps_callers_arrays[OF ex_store_eval l3 l2,
           THEN conjunct2, THEN conjunct1],
         rule evaluator_keeps_callers_arrays[OF ex_store_eval l3 l2,
           THEN conjunct2, THEN conjunct2, THEN conjunct1],
         rule evaluator_keeps_callers_arrays[OF ex_store_eval l3 l2,
           THEN conjunct2, THEN conjunct2, THEN conjunct2]))
qed

subsection \<open>C9: an iteration budget of zero\<close>

text \<open>
  C9. With an iteration budget of zero the driver raises nothing of its own: when the
  preparation and the refinement return, the driver returns. The objective trace has exactly
  one entry, the objective of the all-zero activations, the time trace is its single zero,
  and the activations returned are the refinement of the all-zero tensor of shape (atoms,
  trials, valid length) under the projected initial atoms. No stage is called.
\<close>

theorem zero_budget_run:
  assumes "n_iter cfg = 0"
    and "check_random_state E (random_state cfg) = Inr g"
    and "initial_uv g cfg (fst (snd (dims3 X))) = Inr uv0"
    and "prox_uv E uv0 (uv_constraint cfg) (fst (snd (dims3 X))) = Inr (uv1, nrm)"
    and "randn_b g (n_atoms cfg * (int (fst (snd (dims3 X))) + n_times_atom cfg)) = Inr b"
    and "np_zeros (n_atoms cfg) (int (fst (dims3 X)))
           (int (snd (snd (dims3 X))) - n_times_atom cfg + 1) = Inr Z0"
    and "compute_X_and_objective_multi (prox_uv E) X Z0 uv1 (reg cfg) True (uv_constraint cfg)
           = Inr v"
    and "support_least_square E X uv1 Z0 = Inr Z'"
  shows "learn_d_z_multi E cfg X =
           Inr \<lparr>pobj = [v], times_l = [0], uv_hat = uv1, Z_hat = Z', reg_cur = reg cfg / 100,
                events = [Evaluate True (reg cfg), LeastSquares]\<rparr>"
  using assms
  by (cases "dims3 X")
     (simp add: learn_d_z_multi_def initialise_def append_objective_def finish_def Let_def)

theorem zero_budget_witness:
  "n_iter ex_cfg_zero = 0
   \<and> check_random_state (ex_env ex_Z ex_uv) (random_state ex_cfg_zero) = Inr ex_rng
   \<and> initial_uv ex_rng ex_cfg_zero (fst (snd (dims3 ex_X))) = Inr ex_uv0
   \<and> prox_uv (ex_env ex_Z ex_uv) ex_uv0 (uv_constraint ex_cfg_zero) (fst (snd (dims3 ex_X)))
       = Inr (ex_uv0, [1])
   \<and> randn_b ex_rng (n_atoms ex_cfg_zero * (int (fst (snd (dims3 ex_X))) + n_times_atom ex_cfg_zero))
       = Inr [0, 0]
   \<and> np_zeros (n_atoms ex_cfg_zero) (int (fst (dims3 ex_X)))
        (int (snd (snd (dims3 ex_X))) - n_times_atom ex_cfg_zero + 1) = Inr ex_Z0
   \<and> compute_X_and_objective_multi (prox_uv (ex_env ex_Z ex_uv)) ex_X ex_Z0 ex_uv0
        (reg ex_cfg_zero) True (uv_constraint ex_cfg_zero) = Inr 2
   \<and> support_least_square (ex_env ex_Z ex_uv) ex_X ex_uv0 ex_Z0 = Inr ex_Z0
   \<and> learn_d_z_multi (ex_env ex_Z ex_uv) ex_cfg_zero ex_X =
           Inr \<lparr>pobj = [2], times_l = [0], uv_hat = ex_uv0, Z_hat = ex_Z0,
                reg_cur = reg ex_cfg_zero / 100,
                events = [Evaluate True (reg ex_cfg_zero), LeastSquares]\<rparr>"
proof -
  have h2: "check_random_state (ex_env ex_Z ex_uv) (random_state ex_cfg_zero) = Inr ex_rng"
    by (simp add: ex_env_def)
  have h3: "initial_uv ex_rng ex_cfg_zero (fst (snd (dims3 ex_X))) = Inr ex_uv0"
    by (simp add: initial_uv_def ex_cfg_zero_fields)
  have h4: "prox_uv (ex_env ex_Z ex_uv) ex_uv0 (uv_constraint ex_cfg_zero) (fst (snd (dims3 ex_X)))
       = Inr (ex_uv0, [1])"
    by (simp add: ex_env_fields ex_cfg_zero_fields ex_dims ex_prox_uv0)
  have h5: "randn_b ex_rng (n_atoms ex_cfg_zero * (int (fst (snd (dims3 ex_X))) + n_times_atom ex_cfg_zero))
       = Inr [0, 0]"
    by (simp add: ex_cfg_zero_fields ex_dims ex_rng_draw)
  have h6: "np_zeros (n_atoms ex_cfg_zero) (int (fst (dims3 ex_X)))
        (int (snd (snd (dims3 ex_X))) - n_times_atom ex_cfg_zero + 1) = Inr ex_Z0"
    by (simp add: ex_cfg_zero_fields ex_dims ex_zeros)
  have h7: "compute_X_and_objective_multi (prox_uv (ex_env ex_Z ex_uv)) ex_X ex_Z0 ex_uv0
        (reg ex_cfg_zero) True (uv_constraint ex_cfg_zero) = Inr 2"
    by (simp add: ex_env_fields ex_cfg_zero_fields(4) ex_obj_init)
  have h8: "support_least_square (ex_env ex_Z ex_uv) ex_X ex_uv0 ex_Z0 = Inr ex_Z0"
    by (rule ex_env_fields(3))
  show ?thesis
    by (intro conjI, rule ex_cfg_zero_fields(6), rule h2, rule h3, rule h4, rule h5, rule h6,
        rule h7, rule h8,
        rule zero_budget_run[OF ex_cfg_zero_fields(6) h2 h3 h4 h5 h6 h7 h8])
qed

subsection \<open>C10: the first entry of the objective trace\<close>

text \<open>
  C10 (as amended). Whenever the driver returns, the first entry of its objective trace is
  half the sum of the squares of the entries of \<open>X\<close>, whatever the regularization weight,
  the constraint mode and the entries of the initial atom bank, provided the arrays have the
  shapes the docstrings give them: an initial atom bank passed by the caller has
  \<^verbatim>\<open>n_atoms\<close> rows and \<^verbatim>\<open>n_channels + n_times_atom\<close> columns, the projector keeps the shape
  of the atom bank, and the random draw has the shape asked for. The activations are all
  zero, so the rescaled activations, the reconstruction and the penalty are zero.
\<close>

theorem first_trace_entry_is_half_sum_squares:
  assumes "learn_d_z_multi E cfg X = Inr st"
    and "keeps_shape (prox_uv E)" and "draws_shape E" and "uv_init_shape cfg X"
  shows "pobj st \<noteq> [] \<and> hd (pobj st) = half_sum_squares X"
proof -
  from assms(1) obtain st0 b st1 where init: "initialise E cfg X = Inr (st0, b)"
    and loop: "outer_loop E cfg X b [0..<nat (n_iter cfg)] st0 = Inr st1"
    and fin: "finish E X st1 = Inr st"
    by (rule learn_d_z_multi_Inr)
  obtain t ch n where X: "dims3 X = (t, ch, n)" by (cases "dims3 X")
  from initialise_Inr[OF init] obtain g uv0 nrm v where
    g: "check_random_state E (random_state cfg) = Inr g"
    and uv0: "initial_uv g cfg ch = Inr uv0"
    and p: "prox_uv E uv0 (uv_constraint cfg) ch = Inr (uv_hat st0, nrm)"
    and z: "np_zeros (n_atoms cfg) (int t) (int n - n_times_atom cfg + 1) = Inr (Z_hat st0)"
    and ev: "compute_X_and_objective_multi (prox_uv E) X (Z_hat st0) (uv_hat st0) (reg cfg) True
         (uv_constraint cfg) = Inr v"
    and pobj0: "pobj st0 = [v]"
    by (auto simp: X)
  from initial_uv_dims[OF uv0 g assms(3,4)] X obtain a' where
    d0: "dims2 uv0 = (a', ch + nat (n_times_atom cfg))" by auto
  have d1: "dims2 (uv_hat st0) = (a', ch + nat (n_times_atom cfg))"
    using assms(2) p d0 unfolding keeps_shape_def by metis
  from np_zeros_Inr[OF z] have v0: "0 \<le> int n - n_times_atom cfg + 1"
    and Z0: "Z_hat st0 = tabulate3 (nat (n_atoms cfg), t, nat (int n - n_times_atom cfg + 1)) (\<lambda>i j k. 0)"
    by simp_all
  from assms(4) have "0 \<le> n_times_atom cfg" by (simp add: uv_init_shape_def)
  with v0 have len: "nat (int n - n_times_atom cfg + 1) + nat (n_times_atom cfg) = Suc n"
    by simp
  have "v = half_sum_squares X"
    by (rule evaluator_zero_activations[OF ev[unfolded Z0] X assms(2) d1 len])
  moreover from outer_loop_pobj[OF loop] finish_pobj[OF fin] pobj0
  obtain new where "pobj st = v # new" by auto
  ultimately show ?thesis by simp
qed

lemma ex_keeps_shape: "keeps_shape prox_uv_spec"
  by (auto simp: keeps_shape_def prox_uv_spec_def tabulate2_def Let_def split: if_splits prod.splits)

lemma ex_draws_shape: "draws_shape (ex_env Z uv)"
  by (auto simp: draws_shape_def ex_env_def ex_rng_def tabulate2_def)

lemma ex_uv_init_shape: "uv_init_shape ex_cfg ex_X"
  by (simp add: uv_init_shape_def ex_cfg_def ex_X_def ex_uv0_def)

lemma ex_half_sum_squares: "half_sum_squares ex_X = 2"
  by (simp add: half_sum_squares_def ex_X_def at3_def eval_nat_numeral)

theorem first_trace_entry_witness:
  "learn_d_z_multi (ex_env ex_Z ex_uv) ex_cfg ex_X =
     Inr \<lparr>pobj = [2, 1, 1 / 2, 1 / 2, 1 / 2], times_l = [0, 1, 1, 1, 1], uv_hat = ex_uv,
          Z_hat = ex_Z, reg_cur = 1 / 4,
          events = [Evaluate True (1 / 4),
            SparseCode 0 (1 / 400), Evaluate True (1 / 4), Dictionary 0, Evaluate True (1 / 4),
            SparseCode 1 (1 / 4), Evaluate True (1 / 4), Dictionary 1, Evaluate True (1 / 4),
            LeastSquares]\<rparr>
   \<and> keeps_shape (prox_uv (ex_env ex_Z ex_uv)) \<and> draws_shape (ex_env ex_Z ex_uv)
   \<and> uv_init_shape ex_cfg ex_X
   \<and> half_sum_squares ex_X = 2
   \<and> pobj \<lparr>pobj = [2, 1, 1 / 2, 1 / 2, 1 / 2], times_l = [0, 1, 1, 1, 1], uv_hat = ex_uv,
          Z_hat = ex_Z, reg_cur = 1 / 4,
          events = [Evaluate True (1 / 4),
            SparseCode 0 (1 / 400), Evaluate True (1 / 4), Dictionary 0, Evaluate True (1 / 4),
            SparseCode 1 (1 / 4), Evaluate True (1 / 4), Dictionary 1, Evaluate True (1 / 4),
            LeastSquares]\<rparr> \<noteq> []
   \<and> hd (pobj \<lparr>pobj = [2, 1, 1 / 2, 1 / 2, 1 / 2], times_l = [0, 1, 1, 1, 1], uv_hat = ex_uv,
          Z_hat = ex_Z, reg_cur = 1 / 4,
          events = [Evaluate True (1 / 4),
            SparseCode 0 (1 / 400), Evaluate True (1 / 4), Dictionary 0, Evaluate True (1 / 4),
            SparseCode 1 (1 / 4), Evaluate True (1 / 4), Dictionary 1, Evaluate True (1 / 4),
            LeastSquares]\<rparr>) = half_sum_squares ex_X"
proof -
  have k: "keeps_shape (prox_uv (ex_env ex_Z ex_uv))"
    by (simp add: ex_env_fields ex_keeps_shape)
  show ?thesis
    by (intro conjI, rule ex_run, rule k, rule ex_draws_shape, rule ex_uv_init_shape,
        rule ex_half_sum_squares,
        (rule first_trace_entry_is_half_sum_squares[OF ex_run k ex_draws_shape ex_uv_init_shape,
           THEN conjunct1],
         rule first_trace_entry_is_half_sum_squares[OF ex_run k ex_draws_shape ex_uv_init_shape,
           THEN conjunct2]))
qed

text \<open>
  The data has one sample per trial and the initial atom bank one column more than
  \<^verbatim>\<open>n_channels + n_times_atom\<close>. The reconstruction then has two samples, the subtraction
  broadcasts the data along the time axis, and the first entry of the trace is 4; half the
  sum of the squares of the data is 2.
\<close>

theorem first_trace_entry_wide_bank_counterexample:
  "learn_d_z_multi (ex_env ex_Z ex_uv) ex_cfg_wide ex_X1 =
     Inr \<lparr>pobj = [4], times_l = [0], uv_hat = ex_uv_wide,
          Z_hat = ex_Z0_one, reg_cur = 1 / 400,
          events = [Evaluate True (1 / 4), LeastSquares]\<rparr>
   \<and> half_sum_squares ex_X1 = 2
   \<and> uv_init ex_cfg_wide = Some ex_uv_wide \<and> dims2 ex_uv_wide = (1, 3)
   \<and> n_atoms ex_cfg_wide = 1 \<and> n_times_atom ex_cfg_wide = 1 \<and> dims3 ex_X1 = (1, 1, 1)"
proof -
  have "dims2 ex_uv_wide = (1, 3)" "dims3 ex_X1 = (1, 1, 1)"
    by (simp_all add: ex_uv_wide_def ex_X1_def)
  then show ?thesis
    by (simp add: ex_run_wide ex_half_sum_squares1 ex_cfg_wide_fields)
qed

end
